theory Spec2Isabelle
  imports Complex_Main
begin

section \<open>Values exchanged with the JavaScript environment\<close>

text \<open>
  A thrown JavaScript error is a value carrying its \<open>message\<close>. A rejected promise and a
  \<^verbatim>\<open>throw\<close> are both the left injection of a sum, a fulfilled promise and a normal
  return the right one.
\<close>

datatype js_error = Error (message: string)

type_synonym bytes = "nat list"

text \<open>
  A number is a finite double, taken as the real it denotes, or one of NaN and the two
  infinities. The arithmetic of doubles (\<^verbatim>\<open>*\<close>, \<^verbatim>\<open>+\<close>, \<^verbatim>\<open>-\<close>, \<^verbatim>\<open>Math.ceil\<close>) and the
  conversion of a number to text are functions of the environment: nothing is assumed
  of their rounding. \<open>pointTwo\<close> is the double that the literal \<^verbatim>\<open>0.2\<close> denotes,
  \<open>3602879701896397 / 2 ^ 54\<close>. A number is falsy when it is zero or NaN.
\<close>

datatype js_number = Finite real | NaN | PosInfinity | NegInfinity

definition pointTwo :: js_number where
  "pointTwo = Finite (3602879701896397 / 18014398509481984)"

definition truthyNumber :: "js_number \<Rightarrow> bool" where
  "truthyNumber n = (n \<noteq> Finite 0 \<and> n \<noteq> NaN)"

text \<open>\<^verbatim>\<open>types.ts\<close>: \<^verbatim>\<open>OutputFormat\<close>, \<^verbatim>\<open>TextToSvgPathOptions\<close> and \<^verbatim>\<open>TextToSvgPathResult\<close>.
  An optional property is an \<open>option\<close>; the fields \<^verbatim>\<open>text\<close>, \<^verbatim>\<open>x\<close> and \<^verbatim>\<open>y\<close> are
  prefixed because their names are taken in Isabelle.\<close>

datatype OutputFormat = Svg | PathData | PathElement | SvgWithBackground

record request =
  req_text :: string
  fontUrl :: string
  fontSize :: "js_number option"
  fill :: "string option"
  stroke :: "string option"
  strokeWidth :: "string option"
  kerning :: "bool option"
  req_x :: "js_number option"
  req_y :: "js_number option"
  width :: "js_number option"
  height :: "js_number option"
  background :: "string option"
  backgroundWidth :: "js_number option"
  backgroundHeight :: "js_number option"
  backgroundX :: "js_number option"
  backgroundY :: "js_number option"
  outputFormats :: "OutputFormat list option"

record result =
  svg :: string
  svgWithBackground :: "string option"
  pathData :: string
  pathElement :: string

text \<open>
  What the read of a property yields when the object is read as a request: nothing
  (\<^verbatim>\<open>undefined\<close>), a value of the declared type, or, when a mapping from labels to
  requests is read as a request, the request object stored under the label of that
  name.
\<close>

datatype 'a property = Absent | Present 'a | Object request

record properties =
  textP :: "string property"
  fontUrlP :: "string property"
  fontSizeP :: "js_number property"
  fillP :: "string property"
  strokeP :: "string property"
  strokeWidthP :: "string property"
  kerningP :: "bool property"
  xP :: "js_number property"
  yP :: "js_number property"
  widthP :: "js_number property"
  heightP :: "js_number property"
  backgroundP :: "string property"
  backgroundWidthP :: "js_number property"
  backgroundHeightP :: "js_number property"
  backgroundXP :: "js_number property"
  backgroundYP :: "js_number property"
  outputFormatsP :: "OutputFormat list property"

definition optionalProp :: "'a option \<Rightarrow> 'a property" where
  "optionalProp v = (case v of None \<Rightarrow> Absent | Some a \<Rightarrow> Present a)"

definition objectProp :: "request option \<Rightarrow> 'a property" where
  "objectProp v = (case v of None \<Rightarrow> Absent | Some r \<Rightarrow> Object r)"

text \<open>The properties of a request object, and those of a mapping whose property of a
  given name, own or inherited, is \<open>visible name\<close>.\<close>

definition requestProperties :: "request \<Rightarrow> properties" where
  "requestProperties r =
     \<lparr>textP = Present (req_text r), fontUrlP = Present (fontUrl r),
      fontSizeP = optionalProp (fontSize r), fillP = optionalProp (fill r),
      strokeP = optionalProp (stroke r), strokeWidthP = optionalProp (strokeWidth r),
      kerningP = optionalProp (kerning r), xP = optionalProp (req_x r),
      yP = optionalProp (req_y r), widthP = optionalProp (width r),
      heightP = optionalProp (height r), backgroundP = optionalProp (background r),
      backgroundWidthP = optionalProp (backgroundWidth r),
      backgroundHeightP = optionalProp (backgroundHeight r),
      backgroundXP = optionalProp (backgroundX r), backgroundYP = optionalProp (backgroundY r),
      outputFormatsP = optionalProp (outputFormats r)\<rparr>"

definition mappingProperties :: "(string \<Rightarrow> request option) \<Rightarrow> properties" where
  "mappingProperties visible =
     \<lparr>textP = objectProp (visible ''text''), fontUrlP = objectProp (visible ''fontUrl''),
      fontSizeP = objectProp (visible ''fontSize''), fillP = objectProp (visible ''fill''),
      strokeP = objectProp (visible ''stroke''),
      strokeWidthP = objectProp (visible ''strokeWidth''),
      kerningP = objectProp (visible ''kerning''), xP = objectProp (visible ''x''),
      yP = objectProp (visible ''y''), widthP = objectProp (visible ''width''),
      heightP = objectProp (visible ''height''),
      backgroundP = objectProp (visible ''background''),
      backgroundWidthP = objectProp (visible ''backgroundWidth''),
      backgroundHeightP = objectProp (visible ''backgroundHeight''),
      backgroundXP = objectProp (visible ''backgroundX''),
      backgroundYP = objectProp (visible ''backgroundY''),
      outputFormatsP = objectProp (visible ''outputFormats'')\<rparr>"

text \<open>
  The font engine (opentype.js) and the network (node-fetch) are outside the
  repository; the code is modelled over any behaviour of theirs. \<open>getPath\<close> receives
  what the code passes to it and may throw. \<open>fetch\<close> is the call on a string and
  \<open>fetchOther\<close> the call on an argument that is no string.
\<close>

record bbox =
  x1 :: js_number
  y1 :: js_number
  x2 :: js_number
  y2 :: js_number

record path =
  toPathData :: "nat \<Rightarrow> string"
  getBoundingBox :: bbox

record font =
  getPath :: "string property \<Rightarrow> js_number property \<Rightarrow> js_number property \<Rightarrow> js_number property \<Rightarrow> bool property
              \<Rightarrow> js_error + path"

record response =
  ok :: bool
  status :: js_number
  statusText :: string
  arrayBuffer :: "js_error + bytes"

record world =
  fetch :: "string \<Rightarrow> js_error + response"
  fetchOther :: "string property \<Rightarrow> js_error + response"
  parse :: "bytes \<Rightarrow> js_error + font"
  numToString :: "js_number \<Rightarrow> string"
  numMul :: "js_number \<Rightarrow> js_number \<Rightarrow> js_number"
  numAdd :: "js_number \<Rightarrow> js_number \<Rightarrow> js_number"
  numSub :: "js_number \<Rightarrow> js_number \<Rightarrow> js_number"
  mathCeil :: "js_number \<Rightarrow> js_number"

section \<open>The path generator: \<^verbatim>\<open>processTextWithFont\<close>\<close>

text \<open>A destructuring default \<^verbatim>\<open>{ p = d }\<close> applies when the property is undefined.\<close>

definition withDefault :: "'a property \<Rightarrow> 'a \<Rightarrow> 'a property" where
  "withDefault v d = (case v of Absent \<Rightarrow> Present d | _ \<Rightarrow> v)"

text \<open>The default \<^verbatim>\<open>y = fontSize\<close> is the value of \<^verbatim>\<open>fontSize\<close> after its own default.\<close>

definition withDefaultRead :: "'a property \<Rightarrow> 'a property \<Rightarrow> 'a property" where
  "withDefaultRead v d = (case v of Absent \<Rightarrow> d | _ \<Rightarrow> v)"

text \<open>
  The conversions that the operators of the code apply. In a template literal a string
  stands for itself, a number is printed by the environment and a plain object gives
  \<^verbatim>\<open>[object Object]\<close>. As an operand of \<^verbatim>\<open>*\<close> a plain object, like \<^verbatim>\<open>undefined\<close>, is NaN.
  An object is truthy, a string when it is not empty.
\<close>

definition stringText :: "string property \<Rightarrow> string" where
  "stringText v =
     (case v of Absent \<Rightarrow> ''undefined'' | Present s \<Rightarrow> s | Object _ \<Rightarrow> ''[object Object]'')"

definition numberText :: "world \<Rightarrow> js_number property \<Rightarrow> string" where
  "numberText w v =
     (case v of Absent \<Rightarrow> ''undefined'' | Present n \<Rightarrow> numToString w n
      | Object _ \<Rightarrow> ''[object Object]'')"

definition toNumber :: "js_number property \<Rightarrow> js_number" where
  "toNumber v = (case v of Absent \<Rightarrow> NaN | Present n \<Rightarrow> n | Object _ \<Rightarrow> NaN)"

definition truthyText :: "string property \<Rightarrow> bool" where
  "truthyText v = (case v of Absent \<Rightarrow> False | Present s \<Rightarrow> s \<noteq> [] | Object _ \<Rightarrow> True)"

text \<open>\<^verbatim>\<open>options.width || e\<close>: the left operand when it is truthy, a number that is neither
  zero nor NaN or an object, and the right operand otherwise.\<close>

definition orElse :: "js_number property \<Rightarrow> js_number \<Rightarrow> js_number property" where
  "orElse v e =
     (case v of Absent \<Rightarrow> Present e
      | Present n \<Rightarrow> if truthyNumber n then Present n else Present e
      | Object r \<Rightarrow> Object r)"

text \<open>Lines 153--158, the closure \<^verbatim>\<open>shouldGenerate\<close> over \<^verbatim>\<open>outputFormats\<close>. A request
  object in the place of the list is truthy, its \<^verbatim>\<open>length\<close> is undefined and its
  \<^verbatim>\<open>includes\<close> is no function.\<close>

definition shouldGenerate :: "OutputFormat list property \<Rightarrow> OutputFormat \<Rightarrow> js_error + bool" where
  "shouldGenerate formats format =
     (case formats of
        Absent \<Rightarrow> Inr True
      | Present fs \<Rightarrow> if length fs = 0 then Inr True else Inr (format \<in> set fs)
      | Object _ \<Rightarrow> Inl (Error ''outputFormats.includes is not a function''))"

text \<open>The template literal of lines 173--178, which lines 198--203 repeat. The text of
  an SVG fragment is a string.\<close>

type_synonym markup = string

definition pathElementMarkup :: "string \<Rightarrow> string \<Rightarrow> string \<Rightarrow> string \<Rightarrow> markup" where
  \<open>pathElementMarkup d fl st sw =
     ''<path \<newline>  d="'' @ d @ ''" \<newline>  fill="'' @ fl @ ''"\<newline>  stroke="'' @ st @
     ''"\<newline>  stroke-width="'' @ sw @ ''"\<newline>/>''\<close>

text \<open>The template literal of lines 192--204, over the texts of its interpolated values;
  \<open>inner\<close> is the embedded path element.\<close>

definition svgMarkup :: "string \<Rightarrow> string \<Rightarrow> string \<Rightarrow> string \<Rightarrow> markup \<Rightarrow> markup" where
  \<open>svgMarkup wd ht vx vy inner =
     ''<svg \<newline>xmlns="http://www.w3.org/2000/svg" \<newline>width="'' @ wd @
     ''" \<newline>height="'' @ ht @
     ''" \<newline>viewBox="'' @ vx @ '' '' @ vy @ '' '' @ wd @ '' '' @ ht @
     ''"\<newline>>\<newline>'' @ inner @ ''\<newline></svg>''\<close>

text \<open>The template literal of lines 209--223, over the texts of its interpolated values.\<close>

definition backgroundMarkup ::
  "string \<Rightarrow> string \<Rightarrow> string \<Rightarrow> string \<Rightarrow> string \<Rightarrow> string \<Rightarrow> string \<Rightarrow> string \<Rightarrow> string \<Rightarrow> markup"
where
  \<open>backgroundMarkup bw bh bg d bx by fl st sw =
     ''<svg \<newline>xmlns="http://www.w3.org/2000/svg" \<newline>width="'' @ bw @
     ''" \<newline>height="'' @ bh @
     ''" \<newline>viewBox="0 0 '' @ bw @ '' '' @ bh @
     ''"\<newline>>\<newline><rect x="0" y="0" width="'' @ bw @
     ''" height="'' @ bh @ ''" fill="'' @ bg @
     ''" />\<newline><path \<newline>  d="'' @ d @
     ''" \<newline>  transform="translate('' @ bx @ '', '' @ by @
     '')" \<newline>  fill="'' @ fl @ ''"\<newline>  stroke="'' @ st @
     ''"\<newline>  stroke-width="'' @ sw @ ''"\<newline>/>\<newline></svg>''\<close>

text \<open>
  Lines 134--227, over the properties read from the argument. The function is
  \<^verbatim>\<open>async\<close>: an exception of \<open>getPath\<close> or of \<^verbatim>\<open>shouldGenerate\<close> rejects the promise it
  returns. The three calls of \<^verbatim>\<open>shouldGenerate\<close> are made in the order of lines 172, 182
  and 208.
\<close>

definition processTextWithFontOn :: "world \<Rightarrow> properties \<Rightarrow> font \<Rightarrow> js_error + result" where
  "processTextWithFontOn w options fnt =
     (let fontSize' = withDefault (fontSizeP options) (Finite 72);
          fill' = withDefault (fillP options) ''#000000'';
          stroke' = withDefault (strokeP options) ''none'';
          strokeWidth' = withDefault (strokeWidthP options) ''0'';
          kerning' = withDefault (kerningP options) True;
          x' = withDefault (xP options) (Finite 0);
          y' = withDefaultRead (yP options) fontSize';
          backgroundWidth' = withDefault (backgroundWidthP options) (Finite 400);
          backgroundHeight' = withDefault (backgroundHeightP options) (Finite 200);
          backgroundX' = withDefault (backgroundXP options) (Finite 50);
          backgroundY' = withDefault (backgroundYP options) (Finite 120);
          formats = outputFormatsP options
      in case getPath fnt (textP options) x' y' fontSize' kerning' of
           Inl e \<Rightarrow> Inl e
         | Inr p \<Rightarrow>
             (let d = toPathData p 2;
                  element = pathElementMarkup d (stringText fill') (stringText stroke')
                              (stringText strokeWidth');
                  r0 = \<lparr>svg = [], svgWithBackground = None, pathData = d, pathElement = []\<rparr>
              in case shouldGenerate formats PathElement of
                   Inl e \<Rightarrow> Inl e
                 | Inr g1 \<Rightarrow>
                     (let r1 = (if g1 then r0\<lparr>pathElement := element\<rparr> else r0)
                      in case shouldGenerate formats Svg of
                           Inl e \<Rightarrow> Inl e
                         | Inr g2 \<Rightarrow>
                             (let r2 =
                                (if g2
                                 then (let box = getBoundingBox p;
                                           padding = numMul w (toNumber fontSize') pointTwo;
                                           width' = orElse (widthP options)
                                             (mathCeil w (numAdd w (numSub w (x2 box) (x1 box))
                                                (numMul w padding (Finite 2))));
                                           height' = orElse (heightP options)
                                             (mathCeil w (numAdd w (numSub w (y2 box) (y1 box))
                                                (numMul w padding (Finite 2))))
                                       in r1\<lparr>svg := svgMarkup (numberText w width')
                                              (numberText w height')
                                              (numToString w (numSub w (x1 box) padding))
                                              (numToString w (numSub w (y1 box) padding))
                                              (if pathElement r1 \<noteq> [] then pathElement r1
                                               else element)\<rparr>)
                                 else r1)
                              in case shouldGenerate formats SvgWithBackground of
                                   Inl e \<Rightarrow> Inl e
                                 | Inr g3 \<Rightarrow>
                                     Inr (if g3 \<and> truthyText (backgroundP options)
                                          then r2\<lparr>svgWithBackground :=
                                                 Some (backgroundMarkup
                                                   (numberText w backgroundWidth')
                                                   (numberText w backgroundHeight')
                                                   (stringText (backgroundP options)) d
                                                   (numberText w backgroundX')
                                                   (numberText w backgroundY')
                                                   (stringText fill') (stringText stroke')
                                                   (stringText strokeWidth'))\<rparr>
                                          else r2)))))"

text \<open>The function on an argument of its declared type.\<close>

definition processTextWithFont :: "world \<Rightarrow> request \<Rightarrow> font \<Rightarrow> js_error + result" where
  "processTextWithFont w options fnt = processTextWithFontOn w (requestProperties options) fnt"

section \<open>Plain objects used as dictionaries\<close>

text \<open>
  An object is the list of its own enumerable properties in creation order, with distinct
  keys. \<^verbatim>\<open>Object.keys\<close> lists the keys that are array indices first, in ascending numeric
  order, and then the other keys in creation order.
\<close>

definition isDigit :: "char \<Rightarrow> bool" where
  "isDigit c = (c \<in> set ''0123456789'')"

definition indexValue :: "string \<Rightarrow> nat" where
  "indexValue s = foldl (\<lambda>n c. 10 * n + (of_char c - 48)) 0 s"

definition isArrayIndex :: "string \<Rightarrow> bool" where
  "isArrayIndex s =
     (s \<noteq> [] \<and> list_all isDigit s \<and> (s = ''0'' \<or> hd s \<noteq> CHR ''0'') \<and> indexValue s < 2 ^ 32 - 1)"

definition objectEntries :: "(string \<times> 'v) list \<Rightarrow> (string \<times> 'v) list" where
  "objectEntries ps =
     sort_key (\<lambda>p. indexValue (fst p)) (filter (\<lambda>p. isArrayIndex (fst p)) ps)
     @ filter (\<lambda>p. \<not> isArrayIndex (fst p)) ps"

text \<open>A property write \<^verbatim>\<open>o[key] = v\<close> that creates or replaces an own property.\<close>

primrec setOwn :: "string \<Rightarrow> 'v \<Rightarrow> (string \<times> 'v) list \<Rightarrow> (string \<times> 'v) list" where
  "setOwn key v [] = [(key, v)]"
| "setOwn key v (p # ps) = (if fst p = key then (key, v) # ps else p # setOwn key v ps)"

text \<open>
  An object created by \<^verbatim>\<open>{}\<close> inherits the properties of \<^verbatim>\<open>Object.prototype\<close>: a read of
  one of these names on an object without such an own property yields the inherited
  value (a function, or the prototype itself for \<^verbatim>\<open>__proto__\<close>), which is truthy and has
  no \<^verbatim>\<open>push\<close>.
\<close>

definition objectPrototypeNames :: "string list" where
  "objectPrototypeNames =
     [''constructor'', ''hasOwnProperty'', ''isPrototypeOf'', ''propertyIsEnumerable'',
      ''toLocaleString'', ''toString'', ''valueOf'', ''__defineGetter__'', ''__defineSetter__'',
      ''__lookupGetter__'', ''__lookupSetter__'', ''__proto__'']"

text \<open>
  The object \<^verbatim>\<open>result\<close> of \<^verbatim>\<open>textToSvgPath\<close>. A write to the key \<^verbatim>\<open>__proto__\<close> reaches the
  setter inherited from \<^verbatim>\<open>Object.prototype\<close>: it replaces the prototype of the object and
  creates no own property; a later read of \<^verbatim>\<open>__proto__\<close> returns that prototype.
  \<open>getResult\<close> is the read \<^verbatim>\<open>result[key]\<close> where it yields a stored result.
\<close>

datatype resultObject = ResultObject (ownProps: "(string \<times> result) list") (protoSlot: "result option")

definition emptyResultObject :: resultObject where
  "emptyResultObject = ResultObject [] None"

definition setResult :: "string \<Rightarrow> result \<Rightarrow> resultObject \<Rightarrow> resultObject" where
  "setResult key v obj =
     (if key = ''__proto__'' then ResultObject (ownProps obj) (Some v)
      else ResultObject (setOwn key v (ownProps obj)) (protoSlot obj))"

definition getResult :: "resultObject \<Rightarrow> string \<Rightarrow> result option" where
  "getResult obj key = (if key = ''__proto__'' then protoSlot obj else map_of (ownProps obj) key)"

definition resultKeys :: "resultObject \<Rightarrow> string list" where
  "resultKeys obj = map fst (objectEntries (ownProps obj))"

section \<open>The font resolver\<close>

text \<open>The calls of the environment, in order; \<open>Parse u\<close> is the call of
  \<^verbatim>\<open>opentype.parse\<close> on the bytes fetched from \<open>u\<close>, and \<open>FetchOther\<close> and \<open>ParseOther\<close>
  are the calls for an argument of \<^verbatim>\<open>fetch\<close> that is no string. Logging is left out.\<close>

datatype event = Fetch string | Parse string | FetchOther "string property" | ParseOther "string property"

text \<open>Lines 52--60, which lines 113--121 repeat, on the outcome of \<^verbatim>\<open>fetch\<close>: status check,
  body, parse.\<close>

definition loadFetched ::
  "world \<Rightarrow> js_error + response \<Rightarrow> event \<Rightarrow> event \<Rightarrow> (js_error + font) \<times> event list"
where
  "loadFetched w fetched fetchEvent parseEvent =
     (case fetched of
        Inl e \<Rightarrow> (Inl e, [fetchEvent])
      | Inr fontResponse \<Rightarrow>
          if \<not> ok fontResponse
          then (Inl (Error (''Failed to fetch font: '' @ statusText fontResponse @ '' ('' @
                              numToString w (status fontResponse) @ '')'')), [fetchEvent])
          else (case arrayBuffer fontResponse of
                  Inl e \<Rightarrow> (Inl e, [fetchEvent])
                | Inr fontData \<Rightarrow> (parse w fontData, [fetchEvent, parseEvent])))"

text \<open>Lines 50--60 and 111--121 for a font URL that is a string.\<close>

definition loadFont :: "world \<Rightarrow> string \<Rightarrow> (js_error + font) \<times> event list" where
  "loadFont w url = loadFetched w (fetch w url) (Fetch url) (Parse url)"

text \<open>Lines 111--121 for the value read from the property \<^verbatim>\<open>fontUrl\<close>.\<close>

definition loadFontFrom :: "world \<Rightarrow> string property \<Rightarrow> (js_error + font) \<times> event list" where
  "loadFontFrom w url =
     (case url of
        Present u \<Rightarrow> loadFont w u
      | _ \<Rightarrow> loadFetched w (fetchOther w url) (FetchOther url) (ParseOther url))"

section \<open>Single-request mode: \<^verbatim>\<open>processSingleText\<close>\<close>

text \<open>Lines 87--129, over the properties read from the argument. The promise of
  \<^verbatim>\<open>processTextWithFont\<close> is returned from the \<^verbatim>\<open>try\<close> block without \<^verbatim>\<open>await\<close>, so its
  rejection is not handled by the \<^verbatim>\<open>catch\<close>.\<close>

definition processSingleTextOn :: "world \<Rightarrow> properties \<Rightarrow> (js_error + result) \<times> event list" where
  "processSingleTextOn w options =
     (case loadFontFrom w (fontUrlP options) of
        (Inl error, evs) \<Rightarrow>
          (Inl (Error (''Error generating SVG path: '' @
                        (if message error \<noteq> [] then message error else ''Unknown error''))), evs)
      | (Inr fnt, evs) \<Rightarrow> (processTextWithFontOn w options fnt, evs))"

text \<open>The function on an argument of its declared type.\<close>

definition processSingleText :: "world \<Rightarrow> request \<Rightarrow> (js_error + result) \<times> event list" where
  "processSingleText w options = processSingleTextOn w (requestProperties options)"

section \<open>Batch mode\<close>

text \<open>Lines 37--43, over the entries of the input in the order of \<^verbatim>\<open>Object.keys\<close> (the
  loop reads \<^verbatim>\<open>multiOptions[key]\<close> for each key of that list). \<^verbatim>\<open>fontGroups\<close> is a plain
  object: when the font URL is the name of an inherited property, no group exists under
  it, the test \<^verbatim>\<open>!fontGroups[opts.fontUrl]\<close> is false and \<^verbatim>\<open>push\<close> is not a function.\<close>

fun groupByFontUrl ::
  "(string \<times> request) list \<Rightarrow> (string \<times> string list) list \<Rightarrow> js_error + (string \<times> string list) list"
where
  "groupByFontUrl [] fontGroups = Inr fontGroups"
| "groupByFontUrl ((key, opts) # rest) fontGroups =
     (case map_of fontGroups (fontUrl opts) of
        Some keys \<Rightarrow> groupByFontUrl rest (setOwn (fontUrl opts) (keys @ [key]) fontGroups)
      | None \<Rightarrow>
          if fontUrl opts \<in> set objectPrototypeNames
          then Inl (Error ''fontGroups[opts.fontUrl].push is not a function'')
          else groupByFontUrl rest (setOwn (fontUrl opts) [key] fontGroups))"

text \<open>Lines 71--77: the degraded result of the \<^verbatim>\<open>catch\<close> block, stored under every key of
  the group.\<close>

definition errorResult :: "js_error \<Rightarrow> result" where
  "errorResult error =
     \<lparr>svg = ''<svg><text>Error: '' @ message error @ ''</text></svg>'',
      svgWithBackground = None, pathData = [], pathElement = []\<rparr>"

fun storeErrors :: "js_error \<Rightarrow> string list \<Rightarrow> resultObject \<Rightarrow> resultObject" where
  "storeErrors error [] res = res"
| "storeErrors error (key # keys) res = storeErrors error keys (setResult key (errorResult error) res)"

text \<open>Lines 64 and 67: the options of a key and their generation. A key that is no
  property of the input reads \<^verbatim>\<open>undefined\<close>, which \<^verbatim>\<open>processTextWithFont\<close> cannot
  destructure.\<close>

definition generateFor ::
  "world \<Rightarrow> (string \<times> request) list \<Rightarrow> font \<Rightarrow> string \<Rightarrow> js_error + result"
where
  "generateFor w multiOptions fnt key =
     (case map_of multiOptions key of
        None \<Rightarrow> Inl (Error ''Cannot destructure property of undefined'')
      | Some opts \<Rightarrow> processTextWithFont w opts fnt)"

text \<open>Lines 63--68: the loop stops at the first key whose generation throws and keeps
  what it has stored.\<close>

fun generateGroup ::
  "world \<Rightarrow> (string \<times> request) list \<Rightarrow> font \<Rightarrow> string list \<Rightarrow> resultObject \<Rightarrow> js_error option \<times> resultObject"
where
  "generateGroup w multiOptions fnt [] res = (None, res)"
| "generateGroup w multiOptions fnt (key # keys) res =
     (case generateFor w multiOptions fnt key of
        Inl e \<Rightarrow> (Some e, res)
      | Inr r \<Rightarrow> generateGroup w multiOptions fnt keys (setResult key r res))"

text \<open>Lines 47--78, one iteration of the loop over the font groups.\<close>

definition processFontGroup ::
  "world \<Rightarrow> (string \<times> request) list \<Rightarrow> string \<Rightarrow> string list \<Rightarrow> resultObject \<Rightarrow> resultObject \<times> event list"
where
  "processFontGroup w multiOptions url keys res =
     (case loadFont w url of
        (Inl error, evs) \<Rightarrow> (storeErrors error keys res, evs)
      | (Inr fnt, evs) \<Rightarrow>
          (case generateGroup w multiOptions fnt keys res of
             (Some error, res') \<Rightarrow> (storeErrors error keys res', evs)
           | (None, res') \<Rightarrow> (res', evs)))"

text \<open>Lines 46--79, over the entries of \<^verbatim>\<open>fontGroups\<close> in the order of \<^verbatim>\<open>Object.keys\<close>.\<close>

fun processFontGroups ::
  "world \<Rightarrow> (string \<times> request) list \<Rightarrow> (string \<times> string list) list \<Rightarrow> resultObject \<Rightarrow> resultObject \<times> event list"
where
  "processFontGroups w multiOptions [] res = (res, [])"
| "processFontGroups w multiOptions ((url, keys) # groups) res =
     (case processFontGroup w multiOptions url keys res of
        (res', evs) \<Rightarrow>
          (case processFontGroups w multiOptions groups res' of
             (res'', evs') \<Rightarrow> (res'', evs @ evs')))"

section \<open>The entry point: \<^verbatim>\<open>textToSvgPath\<close>\<close>

text \<open>
  The argument is an object whose prototype chain ends in \<^verbatim>\<open>Object.prototype\<close>. It is a
  request object, given by the values of its properties and the names of those that
  it inherits from its prototype, or a mapping from labels to requests, given by its
  own enumerable properties in creation order and by the properties that it inherits.
  \<open>Single\<close> and \<open>Multi\<close> are the objects that inherit from \<^verbatim>\<open>Object.prototype\<close> only.
\<close>

datatype options =
  RequestObject request "string list"
| MappingObject "(string \<times> request) list" "(string \<times> request) list"

abbreviation Single :: "request \<Rightarrow> options" where
  "Single r \<equiv> RequestObject r []"

abbreviation Multi :: "(string \<times> request) list \<Rightarrow> options" where
  "Multi m \<equiv> MappingObject m []"

datatype returned = One result | Many resultObject

text \<open>The names of the properties of a request: \<^verbatim>\<open>text\<close> and \<^verbatim>\<open>fontUrl\<close> always, an
  optional property when it is given.\<close>

definition present :: "'a option \<Rightarrow> string \<Rightarrow> string list" where
  "present v name = (case v of None \<Rightarrow> [] | Some _ \<Rightarrow> [name])"

definition requestKeys :: "request \<Rightarrow> string list" where
  "requestKeys r =
     [''text'', ''fontUrl''] @ present (fontSize r) ''fontSize'' @ present (fill r) ''fill'' @
     present (stroke r) ''stroke'' @ present (strokeWidth r) ''strokeWidth'' @
     present (kerning r) ''kerning'' @ present (req_x r) ''x'' @ present (req_y r) ''y'' @
     present (width r) ''width'' @ present (height r) ''height'' @
     present (background r) ''background'' @ present (backgroundWidth r) ''backgroundWidth'' @
     present (backgroundHeight r) ''backgroundHeight'' @ present (backgroundX r) ''backgroundX'' @
     present (backgroundY r) ''backgroundY'' @ present (outputFormats r) ''outputFormats''"

text \<open>The names of the own properties, and of the properties inherited from the prototype
  chain below \<^verbatim>\<open>Object.prototype\<close>.\<close>

fun ownKeys :: "options \<Rightarrow> string list" where
  "ownKeys (RequestObject r inherited) = filter (\<lambda>name. name \<notin> set inherited) (requestKeys r)"
| "ownKeys (MappingObject own inherited) = map fst own"

fun inheritedKeys :: "options \<Rightarrow> string list" where
  "inheritedKeys (RequestObject r inherited) = filter (\<lambda>name. name \<in> set inherited) (requestKeys r)"
| "inheritedKeys (MappingObject own inherited) = map fst inherited"

text \<open>The operator \<^verbatim>\<open>in\<close>: own properties and inherited ones, those of \<^verbatim>\<open>Object.prototype\<close>
  among them.\<close>

definition hasProperty :: "string \<Rightarrow> options \<Rightarrow> bool" where
  "hasProperty name obj =
     (name \<in> set (ownKeys obj) \<or> name \<in> set (inheritedKeys obj) \<or>
      name \<in> set objectPrototypeNames)"

text \<open>
  The casts of lines 23 and 27. Read as a request, a request object yields the values of
  its properties, own or inherited, and a mapping yields for each name the request
  stored under the label of that name, an own property before an inherited one. Read
  as a mapping, an object yields its own enumerable properties; a request object is
  never read as a mapping, since it has both \<^verbatim>\<open>text\<close> and \<^verbatim>\<open>fontUrl\<close>.
\<close>

fun propertiesOf :: "options \<Rightarrow> properties" where
  "propertiesOf (RequestObject r inherited) = requestProperties r"
| "propertiesOf (MappingObject own inherited) = mappingProperties (map_of (own @ inherited))"

fun asMulti :: "options \<Rightarrow> (string \<times> request) list" where
  "asMulti (RequestObject r inherited) = []"
| "asMulti (MappingObject own inherited) = own"

text \<open>Lines 27--81, the multi-text case. The loop of lines 37--43 runs outside any
  \<^verbatim>\<open>try\<close>: its exception rejects the call before any font is fetched.\<close>

definition processMulti ::
  "world \<Rightarrow> (string \<times> request) list \<Rightarrow> (js_error + resultObject) \<times> event list"
where
  "processMulti w multiOptions =
     (case groupByFontUrl (objectEntries multiOptions) [] of
        Inl e \<Rightarrow> (Inl e, [])
      | Inr fontGroups \<Rightarrow>
          (case processFontGroups w multiOptions (objectEntries fontGroups) emptyResultObject of
             (res, evs) \<Rightarrow> (Inr res, evs)))"

text \<open>Lines 18--82.\<close>

definition textToSvgPath :: "world \<Rightarrow> options \<Rightarrow> (js_error + returned) \<times> event list" where
  "textToSvgPath w opts =
     (if hasProperty ''text'' opts \<and> hasProperty ''fontUrl'' opts
      then (case processSingleTextOn w (propertiesOf opts) of
              (r, evs) \<Rightarrow> (map_sum id One r, evs))
      else (case processMulti w (asMulti opts) of (r, evs) \<Rightarrow> (map_sum id Many r, evs)))"

section \<open>Notions used in the statements\<close>

text \<open>The value of an optional property after its destructuring default.\<close>

definition orDefault :: "'a option \<Rightarrow> 'a \<Rightarrow> 'a" where
  "orDefault v d = (case v of None \<Rightarrow> d | Some a \<Rightarrow> a)"

text \<open>The call of the font engine made by \<open>processTextWithFont\<close> for a request, the path
  element with the style of the request, and the SVG with the background of the
  request.\<close>

abbreviation glyphPath :: "font \<Rightarrow> request \<Rightarrow> js_error + path" where
  "glyphPath fnt opts \<equiv>
     getPath fnt (Present (req_text opts)) (Present (orDefault (req_x opts) (Finite 0)))
       (Present (orDefault (req_y opts) (orDefault (fontSize opts) (Finite 72))))
       (Present (orDefault (fontSize opts) (Finite 72))) (Present (orDefault (kerning opts) True))"

abbreviation styledPath :: "request \<Rightarrow> string \<Rightarrow> string" where
  "styledPath opts d \<equiv>
     pathElementMarkup d (orDefault (fill opts) ''#000000'') (orDefault (stroke opts) ''none'')
       (orDefault (strokeWidth opts) ''0'')"

abbreviation backgroundSvg :: "world \<Rightarrow> request \<Rightarrow> string \<Rightarrow> string \<Rightarrow> string" where
  "backgroundSvg w opts b d \<equiv>
     backgroundMarkup (numToString w (orDefault (backgroundWidth opts) (Finite 400)))
       (numToString w (orDefault (backgroundHeight opts) (Finite 200))) b d
       (numToString w (orDefault (backgroundX opts) (Finite 50)))
       (numToString w (orDefault (backgroundY opts) (Finite 120)))
       (orDefault (fill opts) ''#000000'') (orDefault (stroke opts) ''none'')
       (orDefault (strokeWidth opts) ''0'')"

text \<open>The labels of the requests of a mapping that name a given font URL.\<close>

definition labelsWithFont :: "string \<Rightarrow> (string \<times> request) list \<Rightarrow> string list" where
  "labelsWithFont url es = map fst (filter (\<lambda>p. fontUrl (snd p) = url) es)"

section \<open>An example environment\<close>

text \<open>
  A font whose glyph path is fixed and which fails on the text \<^verbatim>\<open>boom\<close>; a network that
  serves this font at \<^verbatim>\<open>https://fonts.example/a.ttf\<close>, bytes that are no font at
  \<^verbatim>\<open>https://fonts.example/broken.ttf\<close> (rejected without a message) and at
  \<^verbatim>\<open>https://fonts.example/page.html\<close>, status 404 at \<^verbatim>\<open>https://fonts.example/missing.ttf\<close>,
  and fails on any other URL and on an argument that is no string.

  The arithmetic of the example is that of doubles where the examples use it: on whole
  numbers up to \<open>2 ^ 53\<close> with such a result, where the arithmetic of doubles is exact,
  and on \<^verbatim>\<open>5 * 0.2\<close>, which is \<^verbatim>\<open>1\<close> in doubles. \<open>wholeText\<close> prints such a whole number
  as JavaScript does. Elsewhere the example environment is not that of JavaScript: it
  yields NaN and prints \<^verbatim>\<open>?\<close>, and no example reaches these.
\<close>

definition whole :: "real \<Rightarrow> bool" where
  "whole r = (r = real_of_int \<lfloor>r\<rfloor> \<and> \<bar>r\<bar> \<le> 2 ^ 53)"

fun decimal :: "nat \<Rightarrow> string" where
  "decimal n =
     (if n < 10 then [''0123456789'' ! n] else decimal (n div 10) @ [''0123456789'' ! (n mod 10)])"

definition wholeText :: "js_number \<Rightarrow> string" where
  "wholeText n =
     (case n of
        Finite r \<Rightarrow>
          if \<not> whole r then ''?''
          else if r < 0 then ''-'' @ decimal (nat \<lfloor>- r\<rfloor>) else decimal (nat \<lfloor>r\<rfloor>)
      | NaN \<Rightarrow> ''NaN''
      | PosInfinity \<Rightarrow> ''Infinity''
      | NegInfinity \<Rightarrow> ''-Infinity'')"

definition wholeArithmetic :: "(real \<Rightarrow> real \<Rightarrow> real) \<Rightarrow> js_number \<Rightarrow> js_number \<Rightarrow> js_number" where
  "wholeArithmetic f a b =
     (case a of
        Finite x \<Rightarrow>
          (case b of
             Finite y \<Rightarrow> if whole x \<and> whole y \<and> whole (f x y) then Finite (f x y) else NaN
           | _ \<Rightarrow> NaN)
      | _ \<Rightarrow> NaN)"

definition examplePath :: path where
  "examplePath = \<lparr>toPathData = (\<lambda>precision. ''M1 1L11 11''),
                  getBoundingBox = \<lparr>x1 = Finite 1, y1 = Finite 1, x2 = Finite 11, y2 = Finite 11\<rparr>\<rparr>"

definition exampleFont :: font where
  "exampleFont = \<lparr>getPath = (\<lambda>t x y size k.
      if t = Present ''boom'' then Inl (Error ''glyph failure'') else Inr examplePath)\<rparr>"

definition exampleWorld :: world where
  "exampleWorld =
     \<lparr>fetch = (\<lambda>url.
        if url = ''https://fonts.example/a.ttf''
          then Inr \<lparr>ok = True, status = Finite 200, statusText = ''OK'', arrayBuffer = Inr [1]\<rparr>
        else if url = ''https://fonts.example/broken.ttf''
          then Inr \<lparr>ok = True, status = Finite 200, statusText = ''OK'', arrayBuffer = Inr [0]\<rparr>
        else if url = ''https://fonts.example/page.html''
          then Inr \<lparr>ok = True, status = Finite 200, statusText = ''OK'', arrayBuffer = Inr [60]\<rparr>
        else if url = ''https://fonts.example/missing.ttf''
          then Inr \<lparr>ok = False, status = Finite 404, statusText = ''Not Found'',
                    arrayBuffer = Inr []\<rparr>
        else Inl (Error ''Only absolute URLs are supported'')),
      fetchOther = (\<lambda>url. Inl (Error ''Only absolute URLs are supported'')),
      parse = (\<lambda>data.
        if data = [1] then Inr exampleFont
        else if data = [0] then Inl (Error [])
        else Inl (Error ''Unsupported OpenType signature'')),
      numToString = wholeText,
      numMul = (\<lambda>a b. if a = Finite 5 \<and> b = pointTwo then Finite 1
                       else wholeArithmetic (\<lambda>x y. x * y) a b),
      numAdd = wholeArithmetic (\<lambda>x y. x + y),
      numSub = wholeArithmetic (\<lambda>x y. x - y),
      mathCeil = (\<lambda>a. case a of Finite x \<Rightarrow> Finite (real_of_int \<lceil>x\<rceil>) | _ \<Rightarrow> a)\<rparr>"

definition exampleRequest :: "string \<Rightarrow> string \<Rightarrow> request" where
  "exampleRequest t url =
     \<lparr>req_text = t, fontUrl = url, fontSize = Some (Finite 5), fill = None,
      stroke = None, strokeWidth = None, kerning = None, req_x = None, req_y = None,
      width = None, height = None, background = None, backgroundWidth = None,
      backgroundHeight = None, backgroundX = None, backgroundY = None, outputFormats = None\<rparr>"

definition styledRequest :: request where
  "styledRequest =
     (exampleRequest ''Hi'' ''https://fonts.example/a.ttf'')
       \<lparr>background := Some ''#333333'', outputFormats := Some [PathData]\<rparr>"

text \<open>What the example font yields for every text it accepts, at font size 5: the padding
  is 1, the bounding box from 1 to 11 gives the width and the height 12 and the view
  box \<^verbatim>\<open>0 0 12 12\<close>.\<close>

definition exampleResult :: result where
  "exampleResult =
     \<lparr>svg = svgMarkup ''12'' ''12'' ''0'' ''0''
              (pathElementMarkup ''M1 1L11 11'' ''#000000'' ''none'' ''0''),
      svgWithBackground = None, pathData = ''M1 1L11 11'',
      pathElement = pathElementMarkup ''M1 1L11 11'' ''#000000'' ''none'' ''0''\<rparr>"

text \<open>Two mappings: two labels that share a font beside one whose font is missing, and
  two labels that share a font of which the second cannot be generated.\<close>

definition sharedFontBatch :: "(string \<times> request) list" where
  "sharedFontBatch =
     [(''title'', exampleRequest ''Hi'' ''https://fonts.example/a.ttf''),
      (''subtitle'', exampleRequest ''Ho'' ''https://fonts.example/a.ttf''),
      (''logo'', exampleRequest ''Hi'' ''https://fonts.example/missing.ttf'')]"

definition throwingBatch :: "(string \<times> request) list" where
  "throwingBatch =
     [(''title'', exampleRequest ''Hi'' ''https://fonts.example/a.ttf''),
      (''logo'', exampleRequest ''boom'' ''https://fonts.example/a.ttf'')]"

text \<open>
  Two objects with a prototype of their own. The first has no own property and inherits
  the properties of a request (\<^verbatim>\<open>Object.create\<close> of a request object). The second is a
  mapping with the own label \<^verbatim>\<open>text\<close> that inherits the label \<^verbatim>\<open>fontUrl\<close>.
\<close>

definition inheritingRequest :: options where
  "inheritingRequest =
     RequestObject (exampleRequest ''Hi'' ''https://fonts.example/a.ttf'')
       [''text'', ''fontUrl'', ''fontSize'']"

definition inheritingMapping :: options where
  "inheritingMapping =
     MappingObject [(''text'', exampleRequest ''Hi'' ''https://fonts.example/a.ttf'')]
       [(''fontUrl'', exampleRequest ''Ho'' ''https://fonts.example/a.ttf'')]"

section \<open>Properties of the path generator\<close>

lemma pathElementMarkup_nonempty: "pathElementMarkup d fl st sw \<noteq> []"
  by (simp add: pathElementMarkup_def)

lemma withDefault_optional: "withDefault (optionalProp v) d = Present (orDefault v d)"
  by (simp add: withDefault_def optionalProp_def orDefault_def split: option.splits)

lemma shouldGenerate_optional:
  "shouldGenerate (optionalProp formats) f =
     Inr (case formats of None \<Rightarrow> True | Some fs \<Rightarrow> fs = [] \<or> f \<in> set fs)"
  by (simp add: shouldGenerate_def optionalProp_def split: option.splits)

lemma truthyText_optional: "truthyText (optionalProp v) = (\<exists>b. v = Some b \<and> b \<noteq> [])"
  by (simp add: truthyText_def optionalProp_def split: option.splits)

lemma orElse_optional:
  "orElse (optionalProp v) e =
     Present (case v of None \<Rightarrow> e | Some n \<Rightarrow> if n \<noteq> Finite 0 \<and> n \<noteq> NaN then n else e)"
  by (simp add: orElse_def optionalProp_def truthyNumber_def split: option.splits)

lemma withDefaultRead_optional:
  "withDefaultRead (optionalProp v) (Present d) = Present (orDefault v d)"
  by (simp add: withDefaultRead_def optionalProp_def orDefault_def split: option.splits)

lemma stringText_optional: "v = Some b \<Longrightarrow> stringText (optionalProp v) = b"
  by (simp add: stringText_def optionalProp_def)


lemma conversions_Present:
  "stringText (Present s) = s" "numberText w (Present n) = numToString w n"
  "toNumber (Present n) = n"
  by (simp_all add: stringText_def numberText_def toNumber_def)

lemma selected_iff:
  "(case formats of None \<Rightarrow> True | Some fs \<Rightarrow> fs = [] \<or> f \<in> set fs) =
   (formats = None \<or> formats = Some [] \<or> (\<exists>fs. formats = Some fs \<and> f \<in> set fs))"
  by (cases formats) auto

text \<open>Generation of a request succeeds exactly when the font engine returns a path, and
  then every field of the result is determined.\<close>

lemma processTextWithFont_result:
  assumes "glyphPath fnt opts = Inr p"
  shows "\<exists>r. processTextWithFont w opts fnt = Inr r \<and>
           pathData r = toPathData p 2 \<and>
           pathElement r =
             (if outputFormats opts = None \<or> outputFormats opts = Some [] \<or>
                 (\<exists>fs. outputFormats opts = Some fs \<and> PathElement \<in> set fs)
              then styledPath opts (toPathData p 2) else []) \<and>
           svg r =
             (if outputFormats opts = None \<or> outputFormats opts = Some [] \<or>
                 (\<exists>fs. outputFormats opts = Some fs \<and> Svg \<in> set fs)
              then svgMarkup
                     (numToString w (case width opts of
                        None \<Rightarrow> mathCeil w (numAdd w
                          (numSub w (x2 (getBoundingBox p)) (x1 (getBoundingBox p)))
                          (numMul w (numMul w (orDefault (fontSize opts) (Finite 72)) pointTwo)
                             (Finite 2)))
                      | Some n \<Rightarrow> if n \<noteq> Finite 0 \<and> n \<noteq> NaN then n
                          else mathCeil w (numAdd w
                            (numSub w (x2 (getBoundingBox p)) (x1 (getBoundingBox p)))
                            (numMul w (numMul w (orDefault (fontSize opts) (Finite 72)) pointTwo)
                               (Finite 2)))))
                     (numToString w (case height opts of
                        None \<Rightarrow> mathCeil w (numAdd w
                          (numSub w (y2 (getBoundingBox p)) (y1 (getBoundingBox p)))
                          (numMul w (numMul w (orDefault (fontSize opts) (Finite 72)) pointTwo)
                             (Finite 2)))
                      | Some n \<Rightarrow> if n \<noteq> Finite 0 \<and> n \<noteq> NaN then n
                          else mathCeil w (numAdd w
                            (numSub w (y2 (getBoundingBox p)) (y1 (getBoundingBox p)))
                            (numMul w (numMul w (orDefault (fontSize opts) (Finite 72)) pointTwo)
                               (Finite 2)))))
                     (numToString w (numSub w (x1 (getBoundingBox p))
                        (numMul w (orDefault (fontSize opts) (Finite 72)) pointTwo)))
                     (numToString w (numSub w (y1 (getBoundingBox p))
                        (numMul w (orDefault (fontSize opts) (Finite 72)) pointTwo)))
                     (styledPath opts (toPathData p 2))
              else []) \<and>
           svgWithBackground r =
             (if (outputFormats opts = None \<or> outputFormats opts = Some [] \<or>
                  (\<exists>fs. outputFormats opts = Some fs \<and> SvgWithBackground \<in> set fs)) \<and>
                 (\<exists>b. background opts = Some b \<and> b \<noteq> [])
              then Some (backgroundSvg w opts (orDefault (background opts) []) (toPathData p 2))
              else None)"
proof -
  define g1 where "g1 \<longleftrightarrow> outputFormats opts = None \<or> outputFormats opts = Some [] \<or>
             (\<exists>fs. outputFormats opts = Some fs \<and> PathElement \<in> set fs)"
  define g2 where "g2 \<longleftrightarrow> outputFormats opts = None \<or> outputFormats opts = Some [] \<or>
             (\<exists>fs. outputFormats opts = Some fs \<and> Svg \<in> set fs)"
  define g3 where "g3 \<longleftrightarrow> outputFormats opts = None \<or> outputFormats opts = Some [] \<or>
              (\<exists>fs. outputFormats opts = Some fs \<and> SvgWithBackground \<in> set fs)"
  define b where "b \<longleftrightarrow> (\<exists>b. background opts = Some b \<and> b \<noteq> [])"
  have t: "b \<Longrightarrow> stringText (optionalProp (background opts)) = orDefault (background opts) []"
    by (auto simp: b_def stringText_def optionalProp_def orDefault_def)
  show ?thesis
    using assms
    apply (simp only: processTextWithFont_def processTextWithFontOn_def Let_def)
    apply (simp only: requestProperties_def properties.simps withDefault_optional
        withDefaultRead_optional conversions_Present)
    apply (simp only: sum.case shouldGenerate_optional truthyText_optional orElse_optional
        selected_iff)
    apply (simp only: g1_def [symmetric] g2_def [symmetric] g3_def [symmetric] b_def [symmetric])
    apply (cases g1; cases g2; cases g3; cases b)
    apply (simp_all add: conversions_Present pathElementMarkup_nonempty t)
    done
qed

lemma processTextWithFont_path:
  assumes "processTextWithFont w opts fnt = Inr r"
  shows "\<exists>p. glyphPath fnt opts = Inr p"
  using assms
  apply (simp only: processTextWithFont_def processTextWithFontOn_def Let_def)
  apply (simp only: requestProperties_def properties.simps withDefault_optional
      withDefaultRead_optional)
  apply (cases "glyphPath fnt opts")
   apply simp_all
  done

lemma processTextWithFont_fails:
  assumes "glyphPath fnt opts = Inl e"
  shows "processTextWithFont w opts fnt = Inl e"
  using assms
  apply (simp only: processTextWithFont_def processTextWithFontOn_def Let_def)
  apply (simp only: requestProperties_def properties.simps withDefault_optional
      withDefaultRead_optional)
  apply simp
  done

text \<open>A generated result is never the degraded result of the batch: its \<^verbatim>\<open>svg\<close> is
  empty or an SVG document, not the error placeholder.\<close>

lemma generated_not_degraded:
  assumes "processTextWithFont w opts fnt = Inr r"
  shows "r \<noteq> errorResult e"
proof
  assume "r = errorResult e"
  then have s: "svg r = ''<svg><text>Error: '' @ message e @ ''</text></svg>''"
    by (simp add: errorResult_def)
  from processTextWithFont_path [OF assms] obtain p where "glyphPath fnt opts = Inr p"
    by blast
  from processTextWithFont_result [OF this, of w] assms
  have "svg r = [] \<or> (\<exists>wd ht vx vy inner. svg r = svgMarkup wd ht vx vy inner)"
    by (cases "outputFormats opts = None \<or> outputFormats opts = Some [] \<or>
                 (\<exists>fs. outputFormats opts = Some fs \<and> Svg \<in> set fs)") (simp_all, blast)
  with s show False
    by (auto simp: svgMarkup_def)
qed

lemma exampleFont_path:
  "t \<noteq> ''boom'' \<Longrightarrow> getPath exampleFont (Present t) x y s k = Inr examplePath"
  by (simp add: exampleFont_def)

text \<open>
  C4. Whenever the font engine returns a path, a result is generated and its path data
  is computed, whatever the filter. A format is produced when the filter lets it through
  (\<open>shouldGenerate\<close>). Without \<^verbatim>\<open>outputFormats\<close>, or with the empty list, the filter lets
  every format through: the path element and the SVG are generated, and the SVG with
  background is generated when a background is given. With a non-empty list the filter
  lets through exactly the named formats: the named ones are generated (the SVG with
  background when a background is given), a string output that is not named stays empty
  and \<^verbatim>\<open>svgWithBackground\<close> stays absent when it is not named. With the list
  \<^verbatim>\<open>['pathData']\<close> the path element and the SVG are empty and \<^verbatim>\<open>svgWithBackground\<close> is
  absent, whatever the background.
\<close>

theorem output_format_selection:
  assumes "glyphPath fnt opts = Inr p"
  shows "\<exists>r. processTextWithFont w opts fnt = Inr r \<and> pathData r = toPathData p 2 \<and>
    (outputFormats opts = None \<or> outputFormats opts = Some [] \<longrightarrow>
       (\<forall>f. shouldGenerate (optionalProp (outputFormats opts)) f = Inr True) \<and>
       pathElement r = styledPath opts (pathData r) \<and>
       (\<exists>wd ht vx vy. svg r = svgMarkup wd ht vx vy (pathElement r)) \<and>
       svgWithBackground r =
         (if \<exists>b. background opts = Some b \<and> b \<noteq> []
          then Some (backgroundSvg w opts (orDefault (background opts) []) (pathData r))
          else None)) \<and>
    (\<forall>fs. outputFormats opts = Some fs \<and> fs \<noteq> [] \<longrightarrow>
       (\<forall>f. shouldGenerate (optionalProp (outputFormats opts)) f = Inr (f \<in> set fs)) \<and>
       pathElement r = (if PathElement \<in> set fs then styledPath opts (pathData r) else []) \<and>
       (if Svg \<in> set fs
        then \<exists>wd ht vx vy. svg r = svgMarkup wd ht vx vy (styledPath opts (pathData r))
        else svg r = []) \<and>
       svgWithBackground r =
         (if SvgWithBackground \<in> set fs \<and> (\<exists>b. background opts = Some b \<and> b \<noteq> [])
          then Some (backgroundSvg w opts (orDefault (background opts) []) (pathData r))
          else None)) \<and>
    (outputFormats opts = Some [PathData] \<longrightarrow>
       pathElement r = [] \<and> svg r = [] \<and> svgWithBackground r = None)"
proof -
  from processTextWithFont_result [OF assms, of w] obtain r where
    r: "processTextWithFont w opts fnt = Inr r" and
    d: "pathData r = toPathData p 2" and
    e: "pathElement r =
          (if outputFormats opts = None \<or> outputFormats opts = Some [] \<or>
              (\<exists>fs. outputFormats opts = Some fs \<and> PathElement \<in> set fs)
           then styledPath opts (toPathData p 2) else [])" and
    s: "outputFormats opts = None \<or> outputFormats opts = Some [] \<or>
          (\<exists>fs. outputFormats opts = Some fs \<and> Svg \<in> set fs) \<Longrightarrow>
        \<exists>wd ht vx vy. svg r = svgMarkup wd ht vx vy (styledPath opts (toPathData p 2))" and
    s': "\<not> (outputFormats opts = None \<or> outputFormats opts = Some [] \<or>
            (\<exists>fs. outputFormats opts = Some fs \<and> Svg \<in> set fs)) \<Longrightarrow> svg r = []" and
    b: "svgWithBackground r =
          (if (outputFormats opts = None \<or> outputFormats opts = Some [] \<or>
               (\<exists>fs. outputFormats opts = Some fs \<and> SvgWithBackground \<in> set fs)) \<and>
              (\<exists>b. background opts = Some b \<and> b \<noteq> [])
           then Some (backgroundSvg w opts (orDefault (background opts) []) (toPathData p 2))
           else None)"
    by (elim exE conjE) (rule that, simp_all, blast)
  have 2: "(\<forall>f. shouldGenerate (optionalProp (outputFormats opts)) f = Inr True) \<and>
       pathElement r = styledPath opts (pathData r) \<and>
       (\<exists>wd ht vx vy. svg r = svgMarkup wd ht vx vy (pathElement r)) \<and>
       svgWithBackground r =
         (if \<exists>b. background opts = Some b \<and> b \<noteq> []
          then Some (backgroundSvg w opts (orDefault (background opts) []) (pathData r))
          else None)"
    if "outputFormats opts = None \<or> outputFormats opts = Some []"
  proof -
    have "\<forall>f. shouldGenerate (optionalProp (outputFormats opts)) f = Inr True"
      using that by (auto simp: shouldGenerate_optional)
    moreover have "pathElement r = styledPath opts (pathData r)"
      using that e d by auto
    moreover have "\<exists>wd ht vx vy. svg r = svgMarkup wd ht vx vy (pathElement r)"
      using that e s by auto
    moreover have "svgWithBackground r =
         (if \<exists>b. background opts = Some b \<and> b \<noteq> []
          then Some (backgroundSvg w opts (orDefault (background opts) []) (pathData r))
          else None)"
      using that b d by auto
    ultimately show ?thesis by blast
  qed
  have 3: "(\<forall>f. shouldGenerate (optionalProp (outputFormats opts)) f = Inr (f \<in> set fs)) \<and>
       pathElement r = (if PathElement \<in> set fs then styledPath opts (pathData r) else []) \<and>
       (if Svg \<in> set fs
        then \<exists>wd ht vx vy. svg r = svgMarkup wd ht vx vy (styledPath opts (pathData r))
        else svg r = []) \<and>
       svgWithBackground r =
         (if SvgWithBackground \<in> set fs \<and> (\<exists>b. background opts = Some b \<and> b \<noteq> [])
          then Some (backgroundSvg w opts (orDefault (background opts) []) (pathData r))
          else None)"
    if f: "outputFormats opts = Some fs \<and> fs \<noteq> []" for fs
  proof -
    have "\<forall>f. shouldGenerate (optionalProp (outputFormats opts)) f = Inr (f \<in> set fs)"
      using f by (auto simp: shouldGenerate_optional)
    moreover have "pathElement r =
        (if PathElement \<in> set fs then styledPath opts (pathData r) else [])"
      using f e d by auto
    moreover have "if Svg \<in> set fs
        then \<exists>wd ht vx vy. svg r = svgMarkup wd ht vx vy (styledPath opts (pathData r))
        else svg r = []"
      using f s s' d by auto
    moreover have "svgWithBackground r =
         (if SvgWithBackground \<in> set fs \<and> (\<exists>b. background opts = Some b \<and> b \<noteq> [])
          then Some (backgroundSvg w opts (orDefault (background opts) []) (pathData r))
          else None)"
      using f b d by auto
    ultimately show ?thesis by blast
  qed
  have 4: "pathElement r = [] \<and> svg r = [] \<and> svgWithBackground r = None"
    if "outputFormats opts = Some [PathData]"
    using 3 [of "[PathData]"] that by simp
  from r d 2 3 4 show ?thesis by blast
qed

theorem output_format_selection_witness:
  "(\<exists>r. processTextWithFont exampleWorld (styledRequest\<lparr>outputFormats := None\<rparr>) exampleFont
           = Inr r \<and>
         pathData r = ''M1 1L11 11'' \<and>
         pathElement r = pathElementMarkup ''M1 1L11 11'' ''#000000'' ''none'' ''0'' \<and>
         (\<exists>wd ht vx vy. svg r = svgMarkup wd ht vx vy
            (pathElementMarkup ''M1 1L11 11'' ''#000000'' ''none'' ''0'')) \<and>
         svgWithBackground r =
           Some (backgroundMarkup ''400'' ''200'' ''#333333'' ''M1 1L11 11'' ''50'' ''120''
                   ''#000000'' ''none'' ''0'')) \<and>
   (\<exists>r. processTextWithFont exampleWorld (styledRequest\<lparr>outputFormats := Some []\<rparr>)
           exampleFont = Inr r \<and>
         pathData r = ''M1 1L11 11'' \<and>
         pathElement r = pathElementMarkup ''M1 1L11 11'' ''#000000'' ''none'' ''0'' \<and>
         (\<exists>wd ht vx vy. svg r = svgMarkup wd ht vx vy
            (pathElementMarkup ''M1 1L11 11'' ''#000000'' ''none'' ''0'')) \<and>
         svgWithBackground r =
           Some (backgroundMarkup ''400'' ''200'' ''#333333'' ''M1 1L11 11'' ''50'' ''120''
                   ''#000000'' ''none'' ''0'')) \<and>
   (\<exists>r. processTextWithFont exampleWorld
           (styledRequest\<lparr>outputFormats := Some [Svg, SvgWithBackground]\<rparr>) exampleFont = Inr r \<and>
         pathData r = ''M1 1L11 11'' \<and> pathElement r = [] \<and>
         (\<exists>wd ht vx vy. svg r = svgMarkup wd ht vx vy
            (pathElementMarkup ''M1 1L11 11'' ''#000000'' ''none'' ''0'')) \<and>
         svgWithBackground r =
           Some (backgroundMarkup ''400'' ''200'' ''#333333'' ''M1 1L11 11'' ''50'' ''120''
                   ''#000000'' ''none'' ''0'')) \<and>
   (\<exists>r. processTextWithFont exampleWorld
           (styledRequest\<lparr>outputFormats := Some [PathElement]\<rparr>) exampleFont = Inr r \<and>
         pathData r = ''M1 1L11 11'' \<and>
         pathElement r = pathElementMarkup ''M1 1L11 11'' ''#000000'' ''none'' ''0'' \<and>
         svg r = [] \<and> svgWithBackground r = None) \<and>
   (\<exists>r. processTextWithFont exampleWorld styledRequest exampleFont = Inr r \<and>
         background styledRequest = Some ''#333333'' \<and>
         outputFormats styledRequest = Some [PathData] \<and>
         pathData r = ''M1 1L11 11'' \<and> pathElement r = [] \<and> svg r = [] \<and>
         svgWithBackground r = None)"
proof -
  have p: "glyphPath exampleFont (styledRequest\<lparr>outputFormats := fs\<rparr>) = Inr examplePath" for fs
    by (simp add: exampleFont_path styledRequest_def exampleRequest_def)
  have n: "numToString exampleWorld (Finite 400) = ''400''"
    "numToString exampleWorld (Finite 200) = ''200''"
    "numToString exampleWorld (Finite 50) = ''50''"
    "numToString exampleWorld (Finite 120) = ''120''"
    by (simp_all add: exampleWorld_def wholeText_def whole_def)
  have 1: "\<exists>r. processTextWithFont exampleWorld (styledRequest\<lparr>outputFormats := None\<rparr>) exampleFont
           = Inr r \<and>
         pathData r = ''M1 1L11 11'' \<and>
         pathElement r = pathElementMarkup ''M1 1L11 11'' ''#000000'' ''none'' ''0'' \<and>
         (\<exists>wd ht vx vy. svg r = svgMarkup wd ht vx vy
            (pathElementMarkup ''M1 1L11 11'' ''#000000'' ''none'' ''0'')) \<and>
         svgWithBackground r =
           Some (backgroundMarkup ''400'' ''200'' ''#333333'' ''M1 1L11 11'' ''50'' ''120''
                   ''#000000'' ''none'' ''0'')"
    using output_format_selection [OF p [of None], of exampleWorld]
    by (auto simp: styledRequest_def exampleRequest_def examplePath_def orDefault_def n) blast
  have 5: "\<exists>r. processTextWithFont exampleWorld (styledRequest\<lparr>outputFormats := Some []\<rparr>)
           exampleFont = Inr r \<and>
         pathData r = ''M1 1L11 11'' \<and>
         pathElement r = pathElementMarkup ''M1 1L11 11'' ''#000000'' ''none'' ''0'' \<and>
         (\<exists>wd ht vx vy. svg r = svgMarkup wd ht vx vy
            (pathElementMarkup ''M1 1L11 11'' ''#000000'' ''none'' ''0'')) \<and>
         svgWithBackground r =
           Some (backgroundMarkup ''400'' ''200'' ''#333333'' ''M1 1L11 11'' ''50'' ''120''
                   ''#000000'' ''none'' ''0'')"
    using output_format_selection [OF p [of "Some []"], of exampleWorld]
    by (auto simp: styledRequest_def exampleRequest_def examplePath_def orDefault_def n) blast
  have 2: "\<exists>r. processTextWithFont exampleWorld
           (styledRequest\<lparr>outputFormats := Some [Svg, SvgWithBackground]\<rparr>) exampleFont = Inr r \<and>
         pathData r = ''M1 1L11 11'' \<and> pathElement r = [] \<and>
         (\<exists>wd ht vx vy. svg r = svgMarkup wd ht vx vy
            (pathElementMarkup ''M1 1L11 11'' ''#000000'' ''none'' ''0'')) \<and>
         svgWithBackground r =
           Some (backgroundMarkup ''400'' ''200'' ''#333333'' ''M1 1L11 11'' ''50'' ''120''
                   ''#000000'' ''none'' ''0'')"
    using output_format_selection [OF p [of "Some [Svg, SvgWithBackground]"], of exampleWorld]
    by (auto simp: styledRequest_def exampleRequest_def examplePath_def orDefault_def n) blast
  have 3: "\<exists>r. processTextWithFont exampleWorld
           (styledRequest\<lparr>outputFormats := Some [PathElement]\<rparr>) exampleFont = Inr r \<and>
         pathData r = ''M1 1L11 11'' \<and>
         pathElement r = pathElementMarkup ''M1 1L11 11'' ''#000000'' ''none'' ''0'' \<and>
         svg r = [] \<and> svgWithBackground r = None"
    using output_format_selection [OF p [of "Some [PathElement]"], of exampleWorld]
    by (auto simp: styledRequest_def exampleRequest_def examplePath_def orDefault_def)
  have 4: "\<exists>r. processTextWithFont exampleWorld styledRequest exampleFont = Inr r \<and>
         background styledRequest = Some ''#333333'' \<and>
         outputFormats styledRequest = Some [PathData] \<and>
         pathData r = ''M1 1L11 11'' \<and> pathElement r = [] \<and> svg r = [] \<and>
         svgWithBackground r = None"
    using output_format_selection [OF p [of "Some [PathData]"], of exampleWorld]
    by (auto simp: styledRequest_def exampleRequest_def examplePath_def)
  from 1 2 3 4 5 show ?thesis by blast
qed

text \<open>
  C5. In the result of a request, \<^verbatim>\<open>svgWithBackground\<close> is present exactly when
  \<^verbatim>\<open>background\<close> is a non-empty value and \<^verbatim>\<open>outputFormats\<close> is absent, empty or names
  \<^verbatim>\<open>svgWithBackground\<close>; without a background the field is absent whatever the filter.
\<close>

theorem svgWithBackground_present_iff:
  assumes "processTextWithFont w opts fnt = Inr r"
  shows "((svgWithBackground r \<noteq> None) =
           ((\<exists>b. background opts = Some b \<and> b \<noteq> []) \<and>
            (outputFormats opts = None \<or> outputFormats opts = Some [] \<or>
             (\<exists>fs. outputFormats opts = Some fs \<and> SvgWithBackground \<in> set fs)))) \<and>
         (background opts = None \<longrightarrow> svgWithBackground r = None)"
proof -
  from processTextWithFont_path [OF assms] obtain p where "glyphPath fnt opts = Inr p"
    by blast
  from processTextWithFont_result [OF this, of w] assms
  have "svgWithBackground r =
          (if (outputFormats opts = None \<or> outputFormats opts = Some [] \<or>
               (\<exists>fs. outputFormats opts = Some fs \<and> SvgWithBackground \<in> set fs)) \<and>
              (\<exists>b. background opts = Some b \<and> b \<noteq> [])
           then Some (backgroundSvg w opts (orDefault (background opts) []) (toPathData p 2))
           else None)"
    by simp
  then show ?thesis
    by (cases "(outputFormats opts = None \<or> outputFormats opts = Some [] \<or>
               (\<exists>fs. outputFormats opts = Some fs \<and> SvgWithBackground \<in> set fs)) \<and>
              (\<exists>b. background opts = Some b \<and> b \<noteq> [])") auto
qed

theorem svgWithBackground_present_iff_witness:
  "\<exists>r. processTextWithFont exampleWorld
          (styledRequest\<lparr>outputFormats := Some [SvgWithBackground]\<rparr>) exampleFont = Inr r \<and>
        svgWithBackground r \<noteq> None \<and> svg r = []"
proof -
  let ?q = "styledRequest\<lparr>outputFormats := Some [SvgWithBackground]\<rparr>"
  have p: "glyphPath exampleFont ?q = Inr examplePath"
    by (simp add: exampleFont_path styledRequest_def exampleRequest_def)
  from processTextWithFont_result [OF p, of exampleWorld] obtain r where
    r: "processTextWithFont exampleWorld ?q exampleFont = Inr r" and s: "svg r = []"
    by auto
  from svgWithBackground_present_iff [OF r] have "svgWithBackground r \<noteq> None"
    by (simp add: styledRequest_def exampleRequest_def)
  with r s show ?thesis by blast
qed

text \<open>
  C8, as the code has it. The arithmetic is that of the environment (of doubles). When
  the SVG is produced, the padding is \<^verbatim>\<open>fontSize * 0.2\<close>; the width and the height are the
  explicit \<^verbatim>\<open>width\<close> and \<^verbatim>\<open>height\<close> of the request when given and truthy, that is neither
  zero nor NaN, and otherwise the ceiling of the span of the bounding box plus twice
  the padding; the origin of the view box is the corner \<open>(x1, y1)\<close> of the bounding box
  moved by the padding, and its size is that width and height.
\<close>

theorem svg_dimensions:
  assumes "glyphPath fnt opts = Inr p"
    and "shouldGenerate (optionalProp (outputFormats opts)) Svg = Inr True"
  shows "\<exists>r. processTextWithFont w opts fnt = Inr r \<and>
     (let box = getBoundingBox p;
          padding = numMul w (orDefault (fontSize opts) (Finite 72)) pointTwo;
          autoWidth = mathCeil w (numAdd w (numSub w (x2 box) (x1 box))
                        (numMul w padding (Finite 2)));
          autoHeight = mathCeil w (numAdd w (numSub w (y2 box) (y1 box))
                         (numMul w padding (Finite 2)));
          wd = (case width opts of None \<Rightarrow> autoWidth
                | Some v \<Rightarrow> if v \<noteq> Finite 0 \<and> v \<noteq> NaN then v else autoWidth);
          ht = (case height opts of None \<Rightarrow> autoHeight
                | Some v \<Rightarrow> if v \<noteq> Finite 0 \<and> v \<noteq> NaN then v else autoHeight)
      in svg r = svgMarkup (numToString w wd) (numToString w ht)
                   (numToString w (numSub w (x1 box) padding))
                   (numToString w (numSub w (y1 box) padding))
                   (styledPath opts (toPathData p 2)))"
proof -
  have g: "outputFormats opts = None \<or> outputFormats opts = Some [] \<or>
           (\<exists>fs. outputFormats opts = Some fs \<and> Svg \<in> set fs)"
    using assms(2) by (simp add: shouldGenerate_optional selected_iff)
  from processTextWithFont_result [OF assms(1), of w] g show ?thesis
    unfolding Let_def by (elim exE conjE) (rule exI, simp)
qed

theorem svg_dimensions_witness:
  "(\<exists>r. processTextWithFont exampleWorld
           ((exampleRequest ''Hi'' ''https://fonts.example/a.ttf'')
              \<lparr>width := Some (Finite 300)\<rparr>) exampleFont = Inr r \<and>
         svg r = svgMarkup ''300'' ''12'' ''0'' ''0''
                   (pathElementMarkup ''M1 1L11 11'' ''#000000'' ''none'' ''0'')) \<and>
   (\<exists>r. processTextWithFont exampleWorld
           ((exampleRequest ''Hi'' ''https://fonts.example/a.ttf'')
              \<lparr>height := Some NaN, outputFormats := Some [Svg]\<rparr>) exampleFont = Inr r \<and>
         svg r = svgMarkup ''12'' ''12'' ''0'' ''0''
                   (pathElementMarkup ''M1 1L11 11'' ''#000000'' ''none'' ''0''))"
proof -
  let ?q = "(exampleRequest ''Hi'' ''https://fonts.example/a.ttf'')\<lparr>width := Some (Finite 300)\<rparr>"
  let ?q' = "(exampleRequest ''Hi'' ''https://fonts.example/a.ttf'')
               \<lparr>height := Some NaN, outputFormats := Some [Svg]\<rparr>"
  have p: "glyphPath exampleFont ?q = Inr examplePath"
    "glyphPath exampleFont ?q' = Inr examplePath"
    by (simp_all add: exampleFont_path exampleRequest_def)
  have g: "shouldGenerate (optionalProp (outputFormats ?q)) Svg = Inr True"
    "shouldGenerate (optionalProp (outputFormats ?q')) Svg = Inr True"
    by (simp_all add: shouldGenerate_optional exampleRequest_def)
  have a: "numMul exampleWorld (Finite 5) pointTwo = Finite 1"
    "numMul exampleWorld (Finite 1) (Finite 2) = Finite 2"
    "numSub exampleWorld (Finite 11) (Finite 1) = Finite 10"
    "numSub exampleWorld (Finite 1) (Finite 1) = Finite 0"
    "numAdd exampleWorld (Finite 10) (Finite 2) = Finite 12"
    "mathCeil exampleWorld (Finite 12) = Finite 12"
    "numToString exampleWorld (Finite 12) = ''12''"
    "numToString exampleWorld (Finite 0) = ''0''"
    "numToString exampleWorld (Finite 300) = ''300''"
    by (simp_all add: exampleWorld_def wholeArithmetic_def wholeText_def whole_def pointTwo_def)
  have 1: "\<exists>r. processTextWithFont exampleWorld ?q exampleFont = Inr r \<and>
         svg r = svgMarkup ''300'' ''12'' ''0'' ''0''
                   (pathElementMarkup ''M1 1L11 11'' ''#000000'' ''none'' ''0'')"
    using svg_dimensions [OF p(1) g(1), of exampleWorld]
    by (simp add: Let_def exampleRequest_def examplePath_def orDefault_def a)
  have 2: "\<exists>r. processTextWithFont exampleWorld ?q' exampleFont = Inr r \<and>
         svg r = svgMarkup ''12'' ''12'' ''0'' ''0''
                   (pathElementMarkup ''M1 1L11 11'' ''#000000'' ''none'' ''0'')"
    using svg_dimensions [OF p(2) g(2), of exampleWorld]
    by (simp add: Let_def exampleRequest_def examplePath_def orDefault_def a)
  from 1 2 show ?thesis by blast
qed

text \<open>The claim C8 as the specification states it fails for an explicit width of zero:
  with the bounding box from 1 to 11 and the font size 5 the width is 12, not 0.\<close>

theorem svg_explicit_width_counterexample:
  \<open>width ((exampleRequest ''Hi'' ''https://fonts.example/a.ttf'')\<lparr>width := Some (Finite 0)\<rparr>) =
     Some (Finite 0) \<and>
   map_sum message svg
     (processTextWithFont exampleWorld
        ((exampleRequest ''Hi'' ''https://fonts.example/a.ttf'')\<lparr>width := Some (Finite 0)\<rparr>)
        exampleFont) =
   Inr (''<svg \<newline>xmlns="http://www.w3.org/2000/svg" \<newline>width="12" \<newline>height="12" \<newline>'' @
        ''viewBox="0 0 12 12"\<newline>>\<newline><path \<newline>  d="M1 1L11 11" \<newline>  fill="#000000"\<newline>'' @
        ''  stroke="none"\<newline>  stroke-width="0"\<newline>/>\<newline></svg>'')\<close>
proof -
  let ?q = "(exampleRequest ''Hi'' ''https://fonts.example/a.ttf'')\<lparr>width := Some (Finite 0)\<rparr>"
  have p: "glyphPath exampleFont ?q = Inr examplePath"
    by (simp add: exampleFont_path exampleRequest_def)
  have a: "numMul exampleWorld (Finite 5) pointTwo = Finite 1"
    "numMul exampleWorld (Finite 1) (Finite 2) = Finite 2"
    "numSub exampleWorld (Finite 11) (Finite 1) = Finite 10"
    "numSub exampleWorld (Finite 1) (Finite 1) = Finite 0"
    "numAdd exampleWorld (Finite 10) (Finite 2) = Finite 12"
    "mathCeil exampleWorld (Finite 12) = Finite 12"
    "numToString exampleWorld (Finite 12) = ''12''"
    "numToString exampleWorld (Finite 0) = ''0''"
    by (simp_all add: exampleWorld_def wholeArithmetic_def wholeText_def whole_def pointTwo_def)
  from processTextWithFont_result [OF p, of exampleWorld] show ?thesis
    by (elim exE conjE)
      (simp add: exampleRequest_def examplePath_def orDefault_def a svgMarkup_def
        pathElementMarkup_def)
qed

section \<open>Properties of objects and of the grouping\<close>

lemma set_objectEntries: "set (objectEntries ps) = set ps"
  by (auto simp: objectEntries_def)

lemma distinct_objectEntries:
  assumes "distinct (map fst ps)"
  shows "distinct (map fst (objectEntries ps))"
proof -
  from assms have d: "distinct ps" and i: "inj_on fst (set ps)"
    by (simp_all add: distinct_map)
  from d have "distinct (objectEntries ps)"
    by (auto simp: objectEntries_def)
  with i show ?thesis
    by (simp add: distinct_map set_objectEntries)
qed

lemma map_of_objectEntries:
  "distinct (map fst ps) \<Longrightarrow> map_of (objectEntries ps) = map_of ps"
  by (simp add: map_of_inject_set distinct_objectEntries set_objectEntries)

lemma map_of_setOwn: "map_of (setOwn k v ps) = (map_of ps)(k \<mapsto> v)"
  by (induction ps) auto

lemma keys_setOwn: "fst ` set (setOwn k v ps) = insert k (fst ` set ps)"
  by (induction ps) auto

lemma distinct_setOwn: "distinct (map fst ps) \<Longrightarrow> distinct (map fst (setOwn k v ps))"
  by (induction ps) (auto simp: keys_setOwn)

lemma getResult_setResult:
  "getResult (setResult k v res) k' = (if k' = k then Some v else getResult res k')"
  by (simp add: getResult_def setResult_def map_of_setOwn)

text \<open>The own keys of the object \<^verbatim>\<open>result\<close>.\<close>

lemma keys_setResult:
  "fst ` set (ownProps (setResult k v res)) =
     (if k = ''__proto__'' then {} else {k}) \<union> fst ` set (ownProps res)"
  by (simp add: setResult_def keys_setOwn)

lemma distinct_setResult:
  "distinct (map fst (ownProps res)) \<Longrightarrow> distinct (map fst (ownProps (setResult k v res)))"
  by (simp add: setResult_def distinct_setOwn)

lemma getResult_storeErrors:
  "getResult (storeErrors e ks res) k =
     (if k \<in> set ks then Some (errorResult e) else getResult res k)"
  by (induction ks arbitrary: res) (auto simp: getResult_setResult)

lemma keys_storeErrors:
  "fst ` set (ownProps (storeErrors e ks res)) =
     (set ks - {''__proto__''}) \<union> fst ` set (ownProps res)"
  by (induction ks arbitrary: res) (auto simp: keys_setResult)

lemma distinct_storeErrors:
  "distinct (map fst (ownProps res)) \<Longrightarrow> distinct (map fst (ownProps (storeErrors e ks res)))"
  by (induction ks arbitrary: res) (auto simp: distinct_setResult)

lemma groupByFontUrl_lookup:
  "groupByFontUrl es g0 = Inr g \<Longrightarrow>
   map_of g url =
     (if labelsWithFont url es = [] then map_of g0 url
      else Some ((case map_of g0 url of None \<Rightarrow> [] | Some ks \<Rightarrow> ks) @ labelsWithFont url es))"
proof (induction es g0 rule: groupByFontUrl.induct)
  case (1 fontGroups)
  then show ?case by (simp add: labelsWithFont_def)
next
  case (2 key opts rest fontGroups)
  then show ?case
    by (auto simp: labelsWithFont_def map_of_setOwn split: option.splits if_splits)
qed

lemma groupByFontUrl_distinct:
  "groupByFontUrl es g0 = Inr g \<Longrightarrow> distinct (map fst g0) \<Longrightarrow> distinct (map fst g)"
  by (induction es g0 rule: groupByFontUrl.induct)
     (auto simp: distinct_setOwn split: option.splits if_splits)

lemma groupByFontUrl_total:
  "\<forall>p\<in>set es. fontUrl (snd p) \<notin> set objectPrototypeNames \<Longrightarrow> \<exists>g. groupByFontUrl es g0 = Inr g"
  by (induction es g0 rule: groupByFontUrl.induct) (auto split: option.splits)

lemma set_labelsWithFont:
  "set (labelsWithFont u es) = {k. \<exists>opts. (k, opts) \<in> set es \<and> fontUrl opts = u}"
  by (auto simp: labelsWithFont_def image_iff)

lemma labelsWithFont_empty:
  "(labelsWithFont u es = []) = (u \<notin> fontUrl ` snd ` set es)"
  by (auto simp: labelsWithFont_def filter_empty_conv image_iff)

lemma set_group_labels:
  "set (labelsWithFont u (objectEntries m)) = {k. \<exists>opts. (k, opts) \<in> set m \<and> fontUrl opts = u}"
  by (simp add: set_labelsWithFont set_objectEntries)

text \<open>The font groups of a mapping: one group for each font URL, holding the labels of
  the requests with that URL.\<close>

lemma groups_of_mapping:
  assumes "groupByFontUrl es [] = Inr g"
  shows "distinct (map fst g)"
    and "((u, ks) \<in> set g) = (ks = labelsWithFont u es \<and> u \<in> fontUrl ` snd ` set es)"
    and "fst ` set g = fontUrl ` snd ` set es"
proof -
  show d: "distinct (map fst g)"
    using groupByFontUrl_distinct [OF assms] by simp
  have l: "map_of g u = (if labelsWithFont u es = [] then None else Some (labelsWithFont u es))"
    for u
    using groupByFontUrl_lookup [OF assms, of u] by simp
  show m: "((u, ks) \<in> set g) = (ks = labelsWithFont u es \<and> u \<in> fontUrl ` snd ` set es)"
    for u ks
  proof -
    have "((u, ks) \<in> set g) = (map_of g u = Some ks)"
      using d by simp
    also have "\<dots> = (ks = labelsWithFont u es \<and> labelsWithFont u es \<noteq> [])"
      unfolding l by auto
    finally show ?thesis
      by (simp add: labelsWithFont_empty)
  qed
  show "fst ` set g = fontUrl ` snd ` set es"
  proof (rule set_eqI)
    fix u
    have "(u \<in> fst ` set g) = (\<exists>ks. (u, ks) \<in> set g)"
      by force
    with m [of u] show "(u \<in> fst ` set g) = (u \<in> fontUrl ` snd ` set es)"
      by simp
  qed
qed

section \<open>Properties of the processing of a font group\<close>

lemma loadFont_events:
  "snd (loadFont w u) =
     Fetch u # (if (\<exists>resp d. fetch w u = Inr resp \<and> ok resp \<and> arrayBuffer resp = Inr d)
                then [Parse u] else [])"
  by (auto simp: loadFont_def loadFetched_def split: sum.splits)

lemma generateGroup_other:
  "k \<notin> set ks \<Longrightarrow> getResult (snd (generateGroup w m fnt ks res)) k = getResult res k"
  by (induction ks arbitrary: res) (auto simp: getResult_setResult split: sum.splits)

lemma generateGroup_other_pair:
  "generateGroup w m fnt ks res = (thrown, res') \<Longrightarrow> k \<notin> set ks \<Longrightarrow>
   getResult res' k = getResult res k"
  using generateGroup_other [of k ks w m fnt res] by simp

lemma generateGroup_error:
  "fst (generateGroup w m fnt ks res) = fst (generateGroup w m fnt ks res')"
  by (induction ks arbitrary: res res') (auto split: sum.splits)

lemma generateGroup_None:
  "generateGroup w m fnt ks res = (None, res') \<Longrightarrow> k \<in> set ks \<Longrightarrow>
   \<exists>r. generateFor w m fnt k = Inr r \<and> getResult res' k = Some r"
proof (induction ks arbitrary: res)
  case Nil
  then show ?case by simp
next
  case (Cons a ks)
  from Cons.prems(1) obtain r where
    a: "generateFor w m fnt a = Inr r" and
    g: "generateGroup w m fnt ks (setResult a r res) = (None, res')"
    by (auto split: sum.splits)
  show ?case
  proof (cases "k \<in> set ks")
    case True
    with Cons.IH [OF g] show ?thesis by simp
  next
    case False
    with Cons.prems(2) have "k = a" by simp
    moreover from generateGroup_other [OF False, of w m fnt "setResult a r res"] g
    have "getResult res' k = getResult (setResult a r res) k" by simp
    ultimately show ?thesis using a by (simp add: getResult_setResult)
  qed
qed

lemma generateGroup_Some:
  "generateGroup w m fnt ks res = (Some e, res') \<Longrightarrow> \<exists>k\<in>set ks. generateFor w m fnt k = Inl e"
  by (induction ks arbitrary: res) (auto split: sum.splits)

lemma generateGroup_throws:
  "k \<in> set ks \<Longrightarrow> generateFor w m fnt k = Inl e \<Longrightarrow> fst (generateGroup w m fnt ks res) \<noteq> None"
  by (induction ks arbitrary: res) (auto split: sum.splits)

lemma generateGroup_completes:
  "\<forall>k\<in>set ks. \<exists>r. generateFor w m fnt k = Inr r \<Longrightarrow> fst (generateGroup w m fnt ks res) = None"
  by (induction ks arbitrary: res) (auto split: sum.splits)

lemma keys_generateGroup:
  "fst ` set (ownProps res) \<subseteq> fst ` set (ownProps (snd (generateGroup w m fnt ks res))) \<and>
   fst ` set (ownProps (snd (generateGroup w m fnt ks res))) \<subseteq>
     (set ks - {''__proto__''}) \<union> fst ` set (ownProps res) \<and>
   (fst (generateGroup w m fnt ks res) = None \<longrightarrow>
      fst ` set (ownProps (snd (generateGroup w m fnt ks res))) =
        (set ks - {''__proto__''}) \<union> fst ` set (ownProps res))"
proof (induction ks arbitrary: res)
  case Nil
  then show ?case by simp
next
  case (Cons k ks)
  show ?case
  proof (cases "generateFor w m fnt k")
    case (Inl e)
    then show ?thesis by auto
  next
    case (Inr r)
    with Cons.IH [of "setResult k r res"] show ?thesis
      by (auto simp: keys_setResult split: if_splits)
  qed
qed

lemma distinct_generateGroup:
  "distinct (map fst (ownProps res)) \<Longrightarrow>
   distinct (map fst (ownProps (snd (generateGroup w m fnt ks res))))"
  by (induction ks arbitrary: res) (auto simp: distinct_setResult split: sum.splits)

lemma generateFor_entry:
  "distinct (map fst m) \<Longrightarrow> (k, opts) \<in> set m \<Longrightarrow>
   generateFor w m fnt k = processTextWithFont w opts fnt"
  by (simp add: generateFor_def)

lemma processFontGroup_events: "snd (processFontGroup w m u ks res) = snd (loadFont w u)"
  by (simp add: processFontGroup_def split: prod.splits sum.splits option.splits)

lemma processFontGroup_other:
  "k \<notin> set ks \<Longrightarrow> getResult (fst (processFontGroup w m u ks res)) k = getResult res k"
  by (auto simp: processFontGroup_def getResult_storeErrors
      dest: generateGroup_other_pair split: prod.splits sum.splits option.splits)

lemma processFontGroup_load_fails:
  "fst (loadFont w u) = Inl e \<Longrightarrow> k \<in> set ks \<Longrightarrow>
   getResult (fst (processFontGroup w m u ks res)) k = Some (errorResult e)"
  by (auto simp: processFontGroup_def getResult_storeErrors split: prod.splits sum.splits)

lemma processFontGroup_generation_fails:
  assumes "fst (loadFont w u) = Inr fnt" and "k0 \<in> set ks" and "generateFor w m fnt k0 = Inl e0"
  shows "\<exists>e. (\<exists>k1\<in>set ks. generateFor w m fnt k1 = Inl e) \<and>
             (\<forall>k\<in>set ks. getResult (fst (processFontGroup w m u ks res)) k = Some (errorResult e))"
proof -
  from generateGroup_throws [OF assms(2,3), of res] obtain e res' where
    g: "generateGroup w m fnt ks res = (Some e, res')"
    by (cases "generateGroup w m fnt ks res") auto
  from generateGroup_Some [OF g] have "\<exists>k1\<in>set ks. generateFor w m fnt k1 = Inl e" .
  moreover from assms(1) g
  have "\<forall>k\<in>set ks. getResult (fst (processFontGroup w m u ks res)) k = Some (errorResult e)"
    by (auto simp: processFontGroup_def getResult_storeErrors split: prod.splits)
  ultimately show ?thesis by blast
qed

lemma processFontGroup_succeeds:
  assumes "fst (loadFont w u) = Inr fnt" and "\<forall>k\<in>set ks. \<exists>r. generateFor w m fnt k = Inr r"
    and "k \<in> set ks"
  shows "\<exists>r. generateFor w m fnt k = Inr r \<and>
             getResult (fst (processFontGroup w m u ks res)) k = Some r"
proof -
  from generateGroup_completes [OF assms(2), of res] obtain res' where
    g: "generateGroup w m fnt ks res = (None, res')"
    by (cases "generateGroup w m fnt ks res") auto
  from generateGroup_None [OF g assms(3)] assms(1) g show ?thesis
    by (auto simp: processFontGroup_def split: prod.splits)
qed

lemma processFontGroup_independent:
  assumes "k \<in> set ks"
  shows "getResult (fst (processFontGroup w m u ks res)) k =
         getResult (fst (processFontGroup w m u ks res')) k"
proof (cases "fst (loadFont w u)")
  case (Inl e)
  then show ?thesis using assms by (simp add: processFontGroup_load_fails)
next
  case (Inr fnt)
  show ?thesis
  proof (cases "\<forall>k\<in>set ks. \<exists>r. generateFor w m fnt k = Inr r")
    case True
    from processFontGroup_succeeds [OF Inr True assms, of res]
         processFontGroup_succeeds [OF Inr True assms, of res']
    show ?thesis by auto
  next
    case False
    then obtain k0 e0 where k0: "k0 \<in> set ks" "generateFor w m fnt k0 = Inl e0"
      by (metis sum.exhaust)
    from generateGroup_throws [OF k0, of res] obtain e res1 where
      g: "generateGroup w m fnt ks res = (Some e, res1)"
      by (cases "generateGroup w m fnt ks res") auto
    with generateGroup_error [of w m fnt ks res res'] obtain res2 where
      g': "generateGroup w m fnt ks res' = (Some e, res2)"
      by (cases "generateGroup w m fnt ks res'") auto
    from Inr g g' assms show ?thesis
      by (auto simp: processFontGroup_def getResult_storeErrors split: prod.splits)
  qed
qed

lemma processFontGroup_defined:
  assumes "k \<in> set ks"
  shows "getResult (fst (processFontGroup w m u ks res)) k \<noteq> None"
proof (cases "fst (loadFont w u)")
  case (Inl e)
  then show ?thesis using assms by (simp add: processFontGroup_load_fails)
next
  case (Inr fnt)
  show ?thesis
  proof (cases "\<forall>k\<in>set ks. \<exists>r. generateFor w m fnt k = Inr r")
    case True
    from processFontGroup_succeeds [OF Inr True assms, of res] show ?thesis by auto
  next
    case False
    then obtain k0 e0 where "k0 \<in> set ks" "generateFor w m fnt k0 = Inl e0"
      by (metis sum.exhaust)
    from processFontGroup_generation_fails [OF Inr this, of res] assms show ?thesis by auto
  qed
qed

lemma keys_processFontGroup:
  "fst ` set (ownProps (fst (processFontGroup w m u ks res))) =
     (set ks - {''__proto__''}) \<union> fst ` set (ownProps res)"
proof (cases "loadFont w u")
  case (Pair a evs)
  show ?thesis
  proof (cases a)
    case (Inl e)
    with Pair show ?thesis by (simp add: processFontGroup_def keys_storeErrors)
  next
    case (Inr fnt)
    obtain t res' where g: "generateGroup w m fnt ks res = (t, res')"
      by (cases "generateGroup w m fnt ks res")
    with keys_generateGroup [of res w m fnt ks] Pair Inr show ?thesis
      by (cases t) (auto simp: processFontGroup_def keys_storeErrors)
  qed
qed

lemma distinct_processFontGroup:
  "distinct (map fst (ownProps res)) \<Longrightarrow>
   distinct (map fst (ownProps (fst (processFontGroup w m u ks res))))"
  using distinct_generateGroup [of res w m _ ks]
  by (auto simp: processFontGroup_def distinct_storeErrors
      split: prod.splits sum.splits option.splits dest!: arg_cong [where f = snd])

lemma processFontGroups_Cons:
  "processFontGroups w m ((u, ks) # gs) res =
     (fst (processFontGroups w m gs (fst (processFontGroup w m u ks res))),
      snd (processFontGroup w m u ks res) @
      snd (processFontGroups w m gs (fst (processFontGroup w m u ks res))))"
  by (simp split: prod.splits)

lemma processFontGroups_events:
  "snd (processFontGroups w m gs res) = concat (map (\<lambda>g. snd (loadFont w (fst g))) gs)"
proof (induction gs arbitrary: res)
  case Nil
  then show ?case by simp
next
  case (Cons g gs)
  obtain u ks where g: "g = (u, ks)" by (cases g)
  from Cons.IH [of "fst (processFontGroup w m u ks res)"] g show ?case
    by (simp only: processFontGroups_Cons processFontGroup_events snd_conv fst_conv
        list.map concat.simps)
qed

lemma processFontGroups_other:
  "\<forall>g\<in>set gs. k \<notin> set (snd g) \<Longrightarrow>
   getResult (fst (processFontGroups w m gs res)) k = getResult res k"
proof (induction gs arbitrary: res)
  case Nil
  then show ?case by simp
next
  case (Cons g gs)
  obtain u ks where g: "g = (u, ks)" by (cases g)
  obtain res' evs where p: "processFontGroup w m u ks res = (res', evs)"
    by (cases "processFontGroup w m u ks res")
  from Cons.prems g have "k \<notin> set ks" by simp
  from processFontGroup_other [OF this, of w m u res] p
  have "getResult res' k = getResult res k" by simp
  with Cons.IH [of res'] Cons.prems g p show ?case
    by (simp only: processFontGroups_Cons) simp
qed

text \<open>When the groups have distinct URLs and the key belongs to the group of \<open>u\<close> only,
  the final result of the key is the one its group gives it.\<close>

lemma processFontGroups_get:
  assumes "distinct (map fst gs)" and "(u, ks) \<in> set gs" and "k \<in> set ks"
    and "\<forall>g\<in>set gs. k \<in> set (snd g) \<longrightarrow> fst g = u"
  shows "getResult (fst (processFontGroups w m gs res)) k =
         getResult (fst (processFontGroup w m u ks res0)) k"
  using assms
proof (induction gs arbitrary: res)
  case Nil
  then show ?case by simp
next
  case (Cons g gs)
  obtain u1 ks1 where g: "g = (u1, ks1)" by (cases g)
  obtain res' evs where p: "processFontGroup w m u1 ks1 res = (res', evs)"
    by (cases "processFontGroup w m u1 ks1 res")
  show ?case
  proof (cases "u1 = u")
    case True
    with Cons.prems(1,2) g have ks: "ks1 = ks"
      by (auto simp: image_iff)
    from Cons.prems(1,4) g True have "\<forall>g\<in>set gs. k \<notin> set (snd g)"
      by (auto simp: image_iff)
    from processFontGroups_other [OF this, of w m res'] g p
    have "getResult (fst (processFontGroups w m (g # gs) res)) k = getResult res' k"
      by (simp only: processFontGroups_Cons) simp
    also from p True ks have "\<dots> = getResult (fst (processFontGroup w m u ks res)) k"
      by simp
    also from processFontGroup_independent [OF Cons.prems(3)]
    have "\<dots> = getResult (fst (processFontGroup w m u ks res0)) k" .
    finally show ?thesis .
  next
    case False
    with Cons.prems g have "(u, ks) \<in> set gs" and "distinct (map fst gs)"
      and "\<forall>g\<in>set gs. k \<in> set (snd g) \<longrightarrow> fst g = u"
      by auto
    from Cons.IH [OF this(2) this(1) Cons.prems(3) this(3), of res'] g p show ?thesis
      by (simp only: processFontGroups_Cons) simp
  qed
qed

lemma keys_processFontGroups:
  "fst ` set (ownProps (fst (processFontGroups w m gs res))) =
     ((\<Union>g\<in>set gs. set (snd g)) - {''__proto__''}) \<union> fst ` set (ownProps res)"
proof (induction gs arbitrary: res)
  case Nil
  then show ?case by simp
next
  case (Cons g gs)
  obtain u ks where g: "g = (u, ks)" by (cases g)
  show ?case
    unfolding g processFontGroups_Cons fst_conv Cons.IH keys_processFontGroup
    by auto
qed

lemma distinct_processFontGroups:
  "distinct (map fst (ownProps res)) \<Longrightarrow>
   distinct (map fst (ownProps (fst (processFontGroups w m gs res))))"
proof (induction gs arbitrary: res)
  case Nil
  then show ?case by simp
next
  case (Cons g gs)
  obtain u ks where g: "g = (u, ks)" by (cases g)
  from Cons.IH [OF distinct_processFontGroup [OF Cons.prems, of w m u ks]] show ?case
    unfolding g processFontGroups_Cons fst_conv .
qed

section \<open>Properties of the batch\<close>

lemma count_loadFont_events:
  "distinct us \<Longrightarrow>
   count_list (concat (map (\<lambda>u. snd (loadFont w u)) us)) (Fetch u) =
     (if u \<in> set us then 1 else 0) \<and>
   count_list (concat (map (\<lambda>u. snd (loadFont w u)) us)) (Parse u) =
     (if u \<in> set us \<and> (\<exists>resp d. fetch w u = Inr resp \<and> ok resp \<and> arrayBuffer resp = Inr d)
      then 1 else 0)"
  by (induction us) (auto simp: loadFont_events)

lemma processMulti_Inr:
  assumes "processMulti w m = (Inr res, evs)"
  shows "\<exists>g. groupByFontUrl (objectEntries m) [] = Inr g \<and>
             res = fst (processFontGroups w m (objectEntries g) emptyResultObject) \<and>
             evs = concat (map (\<lambda>u. snd (loadFont w u)) (map fst (objectEntries g)))"
proof -
  from assms obtain g where
    g: "groupByFontUrl (objectEntries m) [] = Inr g" and
    p: "processFontGroups w m (objectEntries g) emptyResultObject = (res, evs)"
    by (auto simp: processMulti_def split: sum.splits prod.splits)
  from p processFontGroups_events [of w m "objectEntries g" emptyResultObject]
  have "evs = concat (map (\<lambda>u. snd (loadFont w u)) (map fst (objectEntries g)))"
    by (simp add: comp_def)
  with g p show ?thesis by simp
qed

lemma processMulti_Inl: "processMulti w m = (Inl e, evs) \<Longrightarrow> evs = []"
  by (auto simp: processMulti_def split: sum.splits prod.splits)

lemma processMulti_events:
  assumes "processMulti w m = (Inr res, evs)"
  shows "count_list evs (Fetch u) = (if u \<in> fontUrl ` snd ` set m then 1 else 0) \<and>
         count_list evs (Parse u) =
           (if u \<in> fontUrl ` snd ` set m \<and>
               (\<exists>resp d. fetch w u = Inr resp \<and> ok resp \<and> arrayBuffer resp = Inr d)
            then 1 else 0)"
proof -
  from processMulti_Inr [OF assms] obtain g where
    g: "groupByFontUrl (objectEntries m) [] = Inr g" and
    e: "evs = concat (map (\<lambda>u. snd (loadFont w u)) (map fst (objectEntries g)))"
    by blast
  from groups_of_mapping(1) [OF g] have d: "distinct (map fst (objectEntries g))"
    by (rule distinct_objectEntries)
  have "set (map fst (objectEntries g)) = fontUrl ` snd ` set m"
    using groups_of_mapping(3) [OF g] by (simp add: set_objectEntries)
  with count_loadFont_events [OF d, of w u] e show ?thesis
    by simp
qed

text \<open>The result stored for a label is the one that the processing of its own font
  group gives it.\<close>

lemma processMulti_get:
  assumes "distinct (map fst m)" and "processMulti w m = (Inr res, evs)" and "(k, opts) \<in> set m"
  shows "getResult res k =
         getResult (fst (processFontGroup w m (fontUrl opts)
                      (labelsWithFont (fontUrl opts) (objectEntries m)) emptyResultObject)) k"
proof -
  let ?es = "objectEntries m"
  from processMulti_Inr [OF assms(2)] obtain g where
    g: "groupByFontUrl ?es [] = Inr g" and
    r: "res = fst (processFontGroups w m (objectEntries g) emptyResultObject)"
    by blast
  have d: "distinct (map fst (objectEntries g))"
    using groups_of_mapping(1) [OF g] by (rule distinct_objectEntries)
  have k: "k \<in> set (labelsWithFont (fontUrl opts) ?es)"
    using assms(3) by (auto simp: set_labelsWithFont set_objectEntries)
  have i: "(fontUrl opts, labelsWithFont (fontUrl opts) ?es) \<in> set (objectEntries g)"
    using groups_of_mapping(2) [OF g, of "fontUrl opts" "labelsWithFont (fontUrl opts) ?es"]
      assms(3)
    by (force simp: set_objectEntries image_iff)
  have o: "\<forall>q\<in>set (objectEntries g). k \<in> set (snd q) \<longrightarrow> fst q = fontUrl opts"
  proof (intro ballI impI)
    fix q assume q: "q \<in> set (objectEntries g)" and kq: "k \<in> set (snd q)"
    from q have "(fst q, snd q) \<in> set g" by (simp add: set_objectEntries)
    with groups_of_mapping(2) [OF g, of "fst q" "snd q"]
    have "snd q = labelsWithFont (fst q) ?es" by simp
    with kq obtain opts' where "(k, opts') \<in> set m" "fontUrl opts' = fst q"
      by (auto simp: set_labelsWithFont set_objectEntries)
    with assms(1,3) show "fst q = fontUrl opts"
      by (metis eq_key_imp_eq_value)
  qed
  show ?thesis
    unfolding r by (rule processFontGroups_get [OF d i k o])
qed

lemma hasProperty_Multi:
  "hasProperty ''text'' (Multi m) = (''text'' \<in> fst ` set m)"
  "hasProperty ''fontUrl'' (Multi m) = (''fontUrl'' \<in> fst ` set m)"
  by (simp_all add: hasProperty_def objectPrototypeNames_def)

lemma hasProperty_Single:
  "hasProperty ''text'' (Single r)" "hasProperty ''fontUrl'' (Single r)"
  by (simp_all add: hasProperty_def requestKeys_def)

lemma textToSvgPath_Multi:
  assumes "\<not> (hasProperty ''text'' (Multi m) \<and> hasProperty ''fontUrl'' (Multi m))"
  shows "textToSvgPath w (Multi m) =
           (map_sum id Many (fst (processMulti w m)), snd (processMulti w m))"
  using assms by (auto simp: textToSvgPath_def split: prod.splits)

lemma textToSvgPath_Single:
  "textToSvgPath w (Single r) =
     (map_sum id One (fst (processSingleText w r)), snd (processSingleText w r))"
  by (simp add: textToSvgPath_def hasProperty_Single processSingleText_def split: prod.splits)

text \<open>A batch call that has fetched something has returned its mapping.\<close>

lemma batch_returned:
  assumes "\<not> (hasProperty ''text'' (Multi m) \<and> hasProperty ''fontUrl'' (Multi m))"
    and "textToSvgPath w (Multi m) = (out, evs)" and "evs \<noteq> [] \<or> (\<exists>v. out = Inr v)"
  shows "\<exists>res. out = Inr (Many res) \<and> processMulti w m = (Inr res, evs)"
proof (cases "fst (processMulti w m)")
  case (Inl e)
  with processMulti_Inl [of w m e "snd (processMulti w m)"] assms(2,3)
    textToSvgPath_Multi [OF assms(1), of w]
  show ?thesis by (cases "processMulti w m") auto
next
  case (Inr res)
  with assms(2) textToSvgPath_Multi [OF assms(1), of w] show ?thesis
    by (cases "processMulti w m") auto
qed

text \<open>Whenever a batch call returns, the own keys of the mapping it returns are the
  labels of the input, each once, except the label \<^verbatim>\<open>__proto__\<close>.\<close>

lemma returned_labels:
  assumes "\<not> (hasProperty ''text'' (Multi m) \<and> hasProperty ''fontUrl'' (Multi m))"
    and "textToSvgPath w (Multi m) = (Inr out, evs)"
  shows "\<exists>res. out = Many res \<and> distinct (resultKeys res) \<and>
           set (resultKeys res) = fst ` set m - {''__proto__''}"
proof -
  from batch_returned [OF assms] obtain res where
    out: "out = Many res" and pm: "processMulti w m = (Inr res, evs)"
    by blast
  from processMulti_Inr [OF pm] obtain g where
    g: "groupByFontUrl (objectEntries m) [] = Inr g" and
    r: "res = fst (processFontGroups w m (objectEntries g) emptyResultObject)"
    by blast
  have "(\<Union>q\<in>set g. set (snd q)) = fst ` set m"
  proof (rule set_eqI)
    fix k
    have "(k \<in> (\<Union>q\<in>set g. set (snd q))) = (\<exists>u ks. (u, ks) \<in> set g \<and> k \<in> set ks)"
      by force
    also have "\<dots> = (\<exists>u. u \<in> fontUrl ` snd ` set m \<and> k \<in> set (labelsWithFont u (objectEntries m)))"
      by (simp add: groups_of_mapping(2) [OF g] set_objectEntries)
    also have "\<dots> = (k \<in> fst ` set m)"
      by (force simp: set_group_labels)
    finally show "(k \<in> (\<Union>q\<in>set g. set (snd q))) = (k \<in> fst ` set m)" .
  qed
  then have k: "fst ` set (ownProps res) = fst ` set m - {''__proto__''}"
    unfolding r keys_processFontGroups
    by (simp add: set_objectEntries emptyResultObject_def)
  have "distinct (map fst (ownProps res))"
    unfolding r by (rule distinct_processFontGroups) (simp add: emptyResultObject_def)
  then have "distinct (resultKeys res)"
    unfolding resultKeys_def by (rule distinct_objectEntries)
  moreover have "set (resultKeys res) = fst ` set m - {''__proto__''}"
    using k by (simp add: resultKeys_def set_objectEntries)
  ultimately show ?thesis using out by blast
qed

section \<open>The example environment evaluated\<close>

lemma example_generate:
  "processTextWithFont exampleWorld (exampleRequest t url) exampleFont =
     (if t = ''boom'' then Inl (Error ''glyph failure'') else Inr exampleResult)"
proof (cases "t = ''boom''")
  case True
  then show ?thesis
    using processTextWithFont_fails [of exampleFont "exampleRequest t url" "Error ''glyph failure''"
        exampleWorld]
    by (simp add: exampleFont_def exampleRequest_def)
next
  case False
  then have p: "glyphPath exampleFont (exampleRequest t url) = Inr examplePath"
    by (simp add: exampleFont_path exampleRequest_def)
  have a: "numMul exampleWorld (Finite 5) pointTwo = Finite 1"
    "numMul exampleWorld (Finite 1) (Finite 2) = Finite 2"
    "numSub exampleWorld (Finite 11) (Finite 1) = Finite 10"
    "numSub exampleWorld (Finite 1) (Finite 1) = Finite 0"
    "numAdd exampleWorld (Finite 10) (Finite 2) = Finite 12"
    "mathCeil exampleWorld (Finite 12) = Finite 12"
    "numToString exampleWorld (Finite 12) = ''12''"
    "numToString exampleWorld (Finite 0) = ''0''"
    by (simp_all add: exampleWorld_def wholeArithmetic_def wholeText_def whole_def pointTwo_def)
  from processTextWithFont_result [OF p, of exampleWorld] False show ?thesis
    by (elim exE conjE)
      (simp add: exampleRequest_def examplePath_def orDefault_def a exampleResult_def)
qed

lemma example_loadFont:
  "loadFont exampleWorld ''https://fonts.example/a.ttf'' =
     (Inr exampleFont, [Fetch ''https://fonts.example/a.ttf'', Parse ''https://fonts.example/a.ttf''])"
  "loadFont exampleWorld ''https://fonts.example/broken.ttf'' =
     (Inl (Error []), [Fetch ''https://fonts.example/broken.ttf'', Parse ''https://fonts.example/broken.ttf''])"
  "loadFont exampleWorld ''https://fonts.example/page.html'' =
     (Inl (Error ''Unsupported OpenType signature''),
      [Fetch ''https://fonts.example/page.html'', Parse ''https://fonts.example/page.html''])"
  "loadFont exampleWorld ''https://fonts.example/missing.ttf'' =
     (Inl (Error ''Failed to fetch font: Not Found (404)''), [Fetch ''https://fonts.example/missing.ttf''])"
  by (simp_all add: loadFont_def loadFetched_def exampleWorld_def wholeText_def whole_def)

lemmas batch_defs =
  textToSvgPath_def processMulti_def objectEntries_def isArrayIndex_def isDigit_def
  hasProperty_def objectPrototypeNames_def processFontGroup_def generateFor_def
  emptyResultObject_def setResult_def errorResult_def

lemma fontUrl_exampleRequest: "fontUrl (exampleRequest t url) = url"
  by (simp add: exampleRequest_def)

lemma requestKeys_exampleRequest:
  "requestKeys (exampleRequest t url) = [''text'', ''fontUrl'', ''fontSize'']"
  by (simp add: requestKeys_def present_def exampleRequest_def)

lemma processSingleText_loaded:
  "loadFont w (fontUrl r) = (Inr fnt, evs) \<Longrightarrow>
   processSingleText w r = (processTextWithFont w r fnt, evs)"
  by (simp add: processSingleText_def processSingleTextOn_def loadFontFrom_def
      processTextWithFont_def requestProperties_def)

lemma example_single:
  "processSingleText exampleWorld (exampleRequest ''Hi'' ''https://fonts.example/a.ttf'') =
     (Inr exampleResult,
      [Fetch ''https://fonts.example/a.ttf'', Parse ''https://fonts.example/a.ttf''])"
proof -
  have "loadFont exampleWorld (fontUrl (exampleRequest ''Hi'' ''https://fonts.example/a.ttf'')) =
          (Inr exampleFont,
           [Fetch ''https://fonts.example/a.ttf'', Parse ''https://fonts.example/a.ttf''])"
    by (simp add: fontUrl_exampleRequest example_loadFont)
  from processSingleText_loaded [OF this] show ?thesis
    by (simp add: example_generate)
qed

lemma sharedFontBatch_run:
  "textToSvgPath exampleWorld (Multi sharedFontBatch) =
     (Inr (Many (ResultObject
        [(''title'', exampleResult), (''subtitle'', exampleResult),
         (''logo'', errorResult (Error ''Failed to fetch font: Not Found (404)''))] None)),
      [Fetch ''https://fonts.example/a.ttf'', Parse ''https://fonts.example/a.ttf'',
       Fetch ''https://fonts.example/missing.ttf''])"
  by (simp add: sharedFontBatch_def batch_defs example_generate example_loadFont
      fontUrl_exampleRequest)

lemma throwingBatch_run:
  "textToSvgPath exampleWorld (Multi throwingBatch) =
     (Inr (Many (ResultObject
        [(''title'', errorResult (Error ''glyph failure'')),
         (''logo'', errorResult (Error ''glyph failure''))] None)),
      [Fetch ''https://fonts.example/a.ttf'', Parse ''https://fonts.example/a.ttf''])"
  by (simp add: throwingBatch_def batch_defs example_generate example_loadFont
      fontUrl_exampleRequest)

lemma batch_mode_examples:
  "\<not> (hasProperty ''text'' (Multi sharedFontBatch) \<and> hasProperty ''fontUrl'' (Multi sharedFontBatch))"
  "\<not> (hasProperty ''text'' (Multi throwingBatch) \<and> hasProperty ''fontUrl'' (Multi throwingBatch))"
  by (simp_all add: hasProperty_Multi sharedFontBatch_def throwingBatch_def)

lemma example_batches_distinct:
  "distinct (map fst sharedFontBatch)" "distinct (map fst throwingBatch)"
  by (simp_all add: sharedFontBatch_def throwingBatch_def)

section \<open>Claims on the batch and on the entry point\<close>

text \<open>
  C1, as the code has it. In batch mode, whenever the call returns its mapping, each
  distinct \<^verbatim>\<open>fontUrl\<close> of the input has been fetched exactly once, however many requests
  name it, and no other URL has been fetched; its bytes have been parsed exactly once
  when the fetch delivered a success status and the bytes, and not at all otherwise.
\<close>

theorem each_font_fetched_once:
  assumes "\<not> (hasProperty ''text'' (Multi m) \<and> hasProperty ''fontUrl'' (Multi m))"
    and "textToSvgPath w (Multi m) = (Inr out, evs)"
  shows "count_list evs (Fetch u) = (if u \<in> fontUrl ` snd ` set m then 1 else 0) \<and>
         count_list evs (Parse u) =
           (if u \<in> fontUrl ` snd ` set m \<and>
               (\<exists>resp d. fetch w u = Inr resp \<and> ok resp \<and> arrayBuffer resp = Inr d)
            then 1 else 0)"
proof -
  from batch_returned [OF assms] obtain res where "processMulti w m = (Inr res, evs)"
    by blast
  then show ?thesis by (rule processMulti_events)
qed

theorem each_font_fetched_once_witness:
  "\<not> (hasProperty ''text'' (Multi sharedFontBatch) \<and> hasProperty ''fontUrl'' (Multi sharedFontBatch)) \<and>
   (\<exists>out. fst (textToSvgPath exampleWorld (Multi sharedFontBatch)) = Inr out) \<and>
   count_list (snd (textToSvgPath exampleWorld (Multi sharedFontBatch)))
     (Fetch ''https://fonts.example/a.ttf'') = 1 \<and>
   count_list (snd (textToSvgPath exampleWorld (Multi sharedFontBatch)))
     (Parse ''https://fonts.example/a.ttf'') = 1 \<and>
   count_list (snd (textToSvgPath exampleWorld (Multi sharedFontBatch)))
     (Fetch ''https://fonts.example/missing.ttf'') = 1 \<and>
   count_list (snd (textToSvgPath exampleWorld (Multi sharedFontBatch)))
     (Parse ''https://fonts.example/missing.ttf'') = 0"
  using each_font_fetched_once [OF batch_mode_examples(1) sharedFontBatch_run,
          of "''https://fonts.example/a.ttf''"]
        each_font_fetched_once [OF batch_mode_examples(1) sharedFontBatch_run,
          of "''https://fonts.example/missing.ttf''"]
        batch_mode_examples(1)
  by (simp add: sharedFontBatch_run)

text \<open>
  The claim C1 as the specification states it (fetched and parsed exactly once) fails for
  a font URL whose fetch returns status 404: it is fetched once and never parsed.
\<close>

theorem failed_fetch_not_parsed_counterexample:
  "textToSvgPath exampleWorld
     (Multi [(''logo'', exampleRequest ''Hi'' ''https://fonts.example/missing.ttf'')]) =
     (Inr (Many (ResultObject
        [(''logo'', errorResult (Error ''Failed to fetch font: Not Found (404)''))] None)),
      [Fetch ''https://fonts.example/missing.ttf'']) \<and>
   count_list [Fetch ''https://fonts.example/missing.ttf'']
     (Parse ''https://fonts.example/missing.ttf'') = 0"
  by (simp add: batch_defs example_loadFont fontUrl_exampleRequest)

text \<open>
  C2. In batch mode, when the font of a URL has been fetched in the call and its fetching
  or parsing has failed, the call returns a mapping that has a result for every label of
  the input; every label of the failing group has the degraded result: empty
  \<^verbatim>\<open>pathData\<close>, empty \<^verbatim>\<open>pathElement\<close>, an \<^verbatim>\<open>svg\<close> that embeds the message of the error as
  text, and no \<^verbatim>\<open>svgWithBackground\<close>; and a label of a group whose font loads and whose
  requests can all be generated has its generated result.
\<close>

theorem font_failure_isolated:
  assumes "\<not> (hasProperty ''text'' (Multi m) \<and> hasProperty ''fontUrl'' (Multi m))"
    and "distinct (map fst m)"
    and "textToSvgPath w (Multi m) = (out, evs)"
    and "Fetch u \<in> set evs"
    and "fst (loadFont w u) = Inl e"
  shows "\<exists>res. out = Inr (Many res) \<and>
     (\<forall>k opts. (k, opts) \<in> set m \<longrightarrow> getResult res k \<noteq> None) \<and>
     (\<forall>k opts. (k, opts) \<in> set m \<and> fontUrl opts = u \<longrightarrow>
        getResult res k =
          Some \<lparr>svg = ''<svg><text>Error: '' @ message e @ ''</text></svg>'',
                svgWithBackground = None, pathData = [], pathElement = []\<rparr>) \<and>
     (\<forall>k opts fnt. (k, opts) \<in> set m \<and> fst (loadFont w (fontUrl opts)) = Inr fnt \<and>
        (\<forall>k' opts'. (k', opts') \<in> set m \<and> fontUrl opts' = fontUrl opts \<longrightarrow>
           (\<exists>r. processTextWithFont w opts' fnt = Inr r)) \<longrightarrow>
        (\<exists>r. processTextWithFont w opts fnt = Inr r \<and> getResult res k = Some r))"
proof -
  from assms(4) have "evs \<noteq> [] \<or> (\<exists>v. out = Inr v)" by auto
  from batch_returned [OF assms(1,3) this] obtain res where
    out: "out = Inr (Many res)" and pm: "processMulti w m = (Inr res, evs)"
    by blast
  let ?ks = "\<lambda>opts. labelsWithFont (fontUrl opts) (objectEntries m)"
  have get: "getResult res k =
      getResult (fst (processFontGroup w m (fontUrl opts) (?ks opts) emptyResultObject)) k"
    and mem: "k \<in> set (?ks opts)"
    if "(k, opts) \<in> set m" for k opts
    using processMulti_get [OF assms(2) pm that] that
    by (auto simp: set_group_labels)
  have 1: "getResult res k \<noteq> None" if "(k, opts) \<in> set m" for k opts
    using get [OF that] processFontGroup_defined [OF mem [OF that]] by simp
  have 2: "getResult res k = Some (errorResult e)"
    if "(k, opts) \<in> set m" and "fontUrl opts = u" for k opts
    using get [OF that(1)] processFontGroup_load_fails [OF _ mem [OF that(1)]] assms(5) that(2)
    by simp
  have 3: "\<exists>r. processTextWithFont w opts fnt = Inr r \<and> getResult res k = Some r"
    if k: "(k, opts) \<in> set m" and f: "fst (loadFont w (fontUrl opts)) = Inr fnt"
      and a: "\<forall>k' opts'. (k', opts') \<in> set m \<and> fontUrl opts' = fontUrl opts \<longrightarrow>
           (\<exists>r. processTextWithFont w opts' fnt = Inr r)"
    for k opts fnt
  proof -
    have "\<forall>k'\<in>set (?ks opts). \<exists>r. generateFor w m fnt k' = Inr r"
      using a by (auto simp: set_group_labels generateFor_entry [OF assms(2)])
    from processFontGroup_succeeds [OF f this mem [OF k], of emptyResultObject]
    show ?thesis
      using get [OF k] generateFor_entry [OF assms(2) k] by simp
  qed
  from out 1 2 3 show ?thesis
    unfolding errorResult_def by blast
qed

theorem font_failure_isolated_witness:
  "\<exists>res. fst (textToSvgPath exampleWorld (Multi sharedFontBatch)) = Inr (Many res) \<and>
     Fetch ''https://fonts.example/missing.ttf'' \<in> set (snd (textToSvgPath exampleWorld (Multi sharedFontBatch))) \<and>
     getResult res ''logo'' =
       Some \<lparr>svg = ''<svg><text>Error: Failed to fetch font: Not Found (404)</text></svg>'',
             svgWithBackground = None, pathData = [], pathElement = []\<rparr> \<and>
     getResult res ''title'' = Some exampleResult \<and>
     getResult res ''subtitle'' = Some exampleResult"
proof -
  let ?u = "''https://fonts.example/missing.ttf''"
  let ?a = "''https://fonts.example/a.ttf''"
  have f: "Fetch ?u \<in> set [Fetch ?a, Parse ?a, Fetch ?u]"
    by simp
  have l: "fst (loadFont exampleWorld ?u) = Inl (Error ''Failed to fetch font: Not Found (404)'')"
    by (simp add: example_loadFont)
  from font_failure_isolated [OF batch_mode_examples(1) example_batches_distinct(1)
      sharedFontBatch_run f l]
  obtain res where
    r: "Inr (Many (ResultObject
        [(''title'', exampleResult), (''subtitle'', exampleResult),
         (''logo'', errorResult (Error ''Failed to fetch font: Not Found (404)''))] None)) = Inr (Many res)" and
    e: "\<And>k opts. (k, opts) \<in> set sharedFontBatch \<Longrightarrow> fontUrl opts = ?u \<Longrightarrow>
        getResult res k =
          Some \<lparr>svg = ''<svg><text>Error: '' @ message (Error ''Failed to fetch font: Not Found (404)'') @ ''</text></svg>'',
                svgWithBackground = None, pathData = [], pathElement = []\<rparr>" and
    n: "\<And>k opts fnt. (k, opts) \<in> set sharedFontBatch \<Longrightarrow>
        fst (loadFont exampleWorld (fontUrl opts)) = Inr fnt \<Longrightarrow>
        (\<forall>k' opts'. (k', opts') \<in> set sharedFontBatch \<and> fontUrl opts' = fontUrl opts \<longrightarrow>
           (\<exists>r. processTextWithFont exampleWorld opts' fnt = Inr r)) \<Longrightarrow>
        (\<exists>r. processTextWithFont exampleWorld opts fnt = Inr r \<and> getResult res k = Some r)"
    by blast
  have 1: "getResult res ''logo'' =
       Some \<lparr>svg = ''<svg><text>Error: Failed to fetch font: Not Found (404)</text></svg>'',
             svgWithBackground = None, pathData = [], pathElement = []\<rparr>"
    using e [of "''logo''" "exampleRequest ''Hi'' ?u"]
    by (simp add: sharedFontBatch_def fontUrl_exampleRequest)
  have g: "\<forall>k' opts'. (k', opts') \<in> set sharedFontBatch \<and> fontUrl opts' = ?a \<longrightarrow>
           (\<exists>r. processTextWithFont exampleWorld opts' exampleFont = Inr r)"
    by (auto simp: sharedFontBatch_def example_generate)
  have 2: "getResult res ''title'' = Some exampleResult"
    using n [of "''title''" "exampleRequest ''Hi'' ?a" exampleFont] g
    by (simp add: sharedFontBatch_def fontUrl_exampleRequest example_loadFont example_generate)
  have 3: "getResult res ''subtitle'' = Some exampleResult"
    using n [of "''subtitle''" "exampleRequest ''Ho'' ?a" exampleFont] g
    by (simp add: sharedFontBatch_def fontUrl_exampleRequest example_loadFont example_generate)
  from r 1 2 3 show ?thesis
    by (simp add: sharedFontBatch_run)
qed

text \<open>
  C3, as the code has it. In single-request mode, when the fetch of the font returns a
  status that is no success, or when the bytes fetched fail to parse, the call fails as
  a whole with the message \<^verbatim>\<open>Error generating SVG path: \<close> followed by the message of the
  underlying error, or by \<^verbatim>\<open>Unknown error\<close> when that message is empty.
\<close>

theorem single_request_failure:
  "(fetch w (fontUrl r) = Inr resp \<and> \<not> ok resp \<longrightarrow>
      fst (textToSvgPath w (Single r)) =
        Inl (Error (''Error generating SVG path: '' @ ''Failed to fetch font: '' @
                    statusText resp @ '' ('' @ numToString w (status resp) @ '')''))) \<and>
   (fetch w (fontUrl r) = Inr resp \<and> ok resp \<and> arrayBuffer resp = Inr d \<and> parse w d = Inl e \<longrightarrow>
      fst (textToSvgPath w (Single r)) =
        Inl (Error (''Error generating SVG path: '' @
                    (if message e = [] then ''Unknown error'' else message e))))"
  by (simp add: textToSvgPath_Single processSingleText_def processSingleTextOn_def
      loadFontFrom_def requestProperties_def loadFont_def loadFetched_def)

theorem single_request_failure_witness:
  "fst (textToSvgPath exampleWorld
          (Single (exampleRequest ''Hi'' ''https://fonts.example/missing.ttf''))) =
     Inl (Error ''Error generating SVG path: Failed to fetch font: Not Found (404)'') \<and>
   fst (textToSvgPath exampleWorld
          (Single (exampleRequest ''Hi'' ''https://fonts.example/page.html''))) =
     Inl (Error ''Error generating SVG path: Unsupported OpenType signature'')"
  using single_request_failure [of exampleWorld
          "exampleRequest ''Hi'' ''https://fonts.example/missing.ttf''"
          "\<lparr>ok = False, status = Finite 404, statusText = ''Not Found'', arrayBuffer = Inr []\<rparr>"]
        single_request_failure [of exampleWorld
          "exampleRequest ''Hi'' ''https://fonts.example/page.html''"
          "\<lparr>ok = True, status = Finite 200, statusText = ''OK'', arrayBuffer = Inr [60]\<rparr>"
          "[60]" "Error ''Unsupported OpenType signature''"]
  by (simp add: fontUrl_exampleRequest exampleWorld_def wholeText_def whole_def)

text \<open>
  The claim C3 as the specification states it fails when the underlying error has an
  empty message: the message of the call ends in \<^verbatim>\<open>Unknown error\<close>.
\<close>

theorem empty_message_counterexample:
  "parse exampleWorld [0] = Inl (Error []) \<and>
   textToSvgPath exampleWorld
     (Single (exampleRequest ''Hi'' ''https://fonts.example/broken.ttf'')) =
     (Inl (Error ''Error generating SVG path: Unknown error''),
      [Fetch ''https://fonts.example/broken.ttf'', Parse ''https://fonts.example/broken.ttf''])"
  by (simp add: textToSvgPath_Single processSingleText_def processSingleTextOn_def
      loadFontFrom_def requestProperties_def example_loadFont fontUrl_exampleRequest)
    (simp add: exampleWorld_def)

text \<open>
  C6 requires of every mapping in batch mode that the mapping returned has the labels of
  the input. For a mapping with one request whose \<^verbatim>\<open>fontUrl\<close> is \<^verbatim>\<open>toString\<close> the call is in
  batch mode and returns no mapping: it is rejected by the grouping loop, in any
  environment.
\<close>

theorem inherited_name_as_font_url:
  "\<not> (hasProperty ''text'' (Multi [(''a'', exampleRequest ''Hi'' ''toString'')]) \<and>
      hasProperty ''fontUrl'' (Multi [(''a'', exampleRequest ''Hi'' ''toString'')])) \<and>
   textToSvgPath w (Multi [(''a'', exampleRequest ''Hi'' ''toString'')]) =
     (Inl (Error ''fontGroups[opts.fontUrl].push is not a function''), [])"
  by (simp add: batch_defs fontUrl_exampleRequest)

theorem inherited_name_as_font_url_witness:
  "fst (textToSvgPath exampleWorld (Multi [(''a'', exampleRequest ''Hi'' ''toString'')])) =
     Inl (Error ''fontGroups[opts.fontUrl].push is not a function'')"
  using inherited_name_as_font_url [of exampleWorld] by simp

text \<open>
  C7, as the code has it. The test of line 22 is the operator \<^verbatim>\<open>in\<close>: the argument of
  \<open>textToSvgPath\<close> is processed in single-request mode exactly when \<^verbatim>\<open>text\<close> and \<^verbatim>\<open>fontUrl\<close>
  are both properties of it, own or inherited through its prototype chain, and its own
  enumerable properties are processed as a mapping from labels to requests otherwise.
  In single-request mode the call never returns a mapping, in batch mode it never
  returns a single result. A request object has both properties and is read as the
  request it is; of a mapping the own properties are the labels processed in batch
  mode.
\<close>

theorem mode_discrimination:
  "textToSvgPath w opts =
     (if ''text'' \<in> set (ownKeys opts) \<union> set (inheritedKeys opts) \<and>
         ''fontUrl'' \<in> set (ownKeys opts) \<union> set (inheritedKeys opts)
      then (map_sum id One (fst (processSingleTextOn w (propertiesOf opts))),
            snd (processSingleTextOn w (propertiesOf opts)))
      else (map_sum id Many (fst (processMulti w (asMulti opts))),
            snd (processMulti w (asMulti opts)))) \<and>
   (''text'' \<in> set (ownKeys opts) \<union> set (inheritedKeys opts) \<and>
    ''fontUrl'' \<in> set (ownKeys opts) \<union> set (inheritedKeys opts) \<longrightarrow>
      (\<forall>res. fst (textToSvgPath w opts) \<noteq> Inr (Many res))) \<and>
   (\<not> (''text'' \<in> set (ownKeys opts) \<union> set (inheritedKeys opts) \<and>
       ''fontUrl'' \<in> set (ownKeys opts) \<union> set (inheritedKeys opts)) \<longrightarrow>
      (\<forall>r. fst (textToSvgPath w opts) \<noteq> Inr (One r))) \<and>
   (\<forall>r inherited. opts = RequestObject r inherited \<longrightarrow>
      ''text'' \<in> set (ownKeys opts) \<union> set (inheritedKeys opts) \<and>
      ''fontUrl'' \<in> set (ownKeys opts) \<union> set (inheritedKeys opts) \<and>
      set (ownKeys opts) = set (requestKeys r) - set inherited \<and>
      processSingleTextOn w (propertiesOf opts) = processSingleText w r) \<and>
   (\<forall>own inherited. opts = MappingObject own inherited \<longrightarrow>
      set (ownKeys opts) = fst ` set own \<and> set (inheritedKeys opts) = fst ` set inherited \<and>
      asMulti opts = own)"
proof -
  have h: "hasProperty ''text'' opts =
             (''text'' \<in> set (ownKeys opts) \<union> set (inheritedKeys opts))"
    "hasProperty ''fontUrl'' opts =
       (''fontUrl'' \<in> set (ownKeys opts) \<union> set (inheritedKeys opts))"
    by (simp_all add: hasProperty_def objectPrototypeNames_def)
  have 1: "textToSvgPath w opts =
     (if ''text'' \<in> set (ownKeys opts) \<union> set (inheritedKeys opts) \<and>
         ''fontUrl'' \<in> set (ownKeys opts) \<union> set (inheritedKeys opts)
      then (map_sum id One (fst (processSingleTextOn w (propertiesOf opts))),
            snd (processSingleTextOn w (propertiesOf opts)))
      else (map_sum id Many (fst (processMulti w (asMulti opts))),
            snd (processMulti w (asMulti opts))))"
    unfolding textToSvgPath_def h by (simp split: prod.splits)
  have 2: "\<forall>res. fst (textToSvgPath w opts) \<noteq> Inr (Many res)"
    if "''text'' \<in> set (ownKeys opts) \<union> set (inheritedKeys opts) \<and>
        ''fontUrl'' \<in> set (ownKeys opts) \<union> set (inheritedKeys opts)"
    using that 1 by (cases "fst (processSingleTextOn w (propertiesOf opts))") auto
  have 3: "\<forall>r. fst (textToSvgPath w opts) \<noteq> Inr (One r)"
    if "\<not> (''text'' \<in> set (ownKeys opts) \<union> set (inheritedKeys opts) \<and>
           ''fontUrl'' \<in> set (ownKeys opts) \<union> set (inheritedKeys opts))"
    using that 1 by (cases "fst (processMulti w (asMulti opts))") auto
  have 4: "''text'' \<in> set (ownKeys opts) \<union> set (inheritedKeys opts) \<and>
      ''fontUrl'' \<in> set (ownKeys opts) \<union> set (inheritedKeys opts) \<and>
      set (ownKeys opts) = set (requestKeys r) - set inherited \<and>
      processSingleTextOn w (propertiesOf opts) = processSingleText w r"
    if "opts = RequestObject r inherited" for r inherited
  proof -
    have "''text'' \<in> set (requestKeys r)" "''fontUrl'' \<in> set (requestKeys r)"
      by (simp_all add: requestKeys_def)
    then show ?thesis
      unfolding that by (auto simp: processSingleText_def)
  qed
  have 5: "set (ownKeys opts) = fst ` set own \<and> set (inheritedKeys opts) = fst ` set inherited \<and>
      asMulti opts = own"
    if "opts = MappingObject own inherited" for own inherited
    unfolding that by simp
  from 1 2 3 4 5 show ?thesis by blast
qed

theorem mode_discrimination_witness:
  "textToSvgPath exampleWorld (Single (exampleRequest ''Hi'' ''https://fonts.example/a.ttf'')) =
     (Inr (One exampleResult),
      [Fetch ''https://fonts.example/a.ttf'', Parse ''https://fonts.example/a.ttf'']) \<and>
   textToSvgPath exampleWorld (Multi [(''text'', exampleRequest ''Hi'' ''https://fonts.example/a.ttf'')]) =
     (Inr (Many (ResultObject [(''text'', exampleResult)] None)),
      [Fetch ''https://fonts.example/a.ttf'', Parse ''https://fonts.example/a.ttf'']) \<and>
   ownKeys inheritingMapping = [''text''] \<and> inheritedKeys inheritingMapping = [''fontUrl''] \<and>
   textToSvgPath exampleWorld inheritingMapping =
     (Inl (Error ''Error generating SVG path: Only absolute URLs are supported''),
      [FetchOther (Object (exampleRequest ''Ho'' ''https://fonts.example/a.ttf''))])"
proof -
  have 1: "textToSvgPath exampleWorld
             (Single (exampleRequest ''Hi'' ''https://fonts.example/a.ttf'')) =
     (Inr (One exampleResult),
      [Fetch ''https://fonts.example/a.ttf'', Parse ''https://fonts.example/a.ttf''])"
    using mode_discrimination [of exampleWorld
            "Single (exampleRequest ''Hi'' ''https://fonts.example/a.ttf'')"]
    by (simp add: requestKeys_exampleRequest example_single)
  have 2: "textToSvgPath exampleWorld
             (Multi [(''text'', exampleRequest ''Hi'' ''https://fonts.example/a.ttf'')]) =
     (Inr (Many (ResultObject [(''text'', exampleResult)] None)),
      [Fetch ''https://fonts.example/a.ttf'', Parse ''https://fonts.example/a.ttf''])"
    using mode_discrimination [of exampleWorld
            "Multi [(''text'', exampleRequest ''Hi'' ''https://fonts.example/a.ttf'')]"]
    by (simp add: example_loadFont example_generate fontUrl_exampleRequest processMulti_def
        objectEntries_def isArrayIndex_def isDigit_def objectPrototypeNames_def
        processFontGroup_def generateFor_def emptyResultObject_def setResult_def)
  have 3: "ownKeys inheritingMapping = [''text''] \<and>
     inheritedKeys inheritingMapping = [''fontUrl''] \<and>
     textToSvgPath exampleWorld inheritingMapping =
       (Inl (Error ''Error generating SVG path: Only absolute URLs are supported''),
        [FetchOther (Object (exampleRequest ''Ho'' ''https://fonts.example/a.ttf''))])"
    using mode_discrimination [of exampleWorld inheritingMapping]
    by (simp add: inheritingMapping_def processSingleTextOn_def loadFontFrom_def
        mappingProperties_def objectProp_def loadFetched_def exampleWorld_def)
  from 1 2 3 show ?thesis by blast
qed

text \<open>
  The claim C7 as the specification states it fails for an object that inherits its
  properties: the object created from a request by \<^verbatim>\<open>Object.create\<close> has no property of
  its own, neither \<^verbatim>\<open>text\<close> nor \<^verbatim>\<open>fontUrl\<close> directly on it, and is processed in
  single-request mode: the call returns the single result of the request, not the empty
  mapping.
\<close>

theorem inherited_properties_counterexample:
  "ownKeys inheritingRequest = [] \<and>
   textToSvgPath exampleWorld inheritingRequest =
     (Inr (One exampleResult),
      [Fetch ''https://fonts.example/a.ttf'', Parse ''https://fonts.example/a.ttf''])"
  by (simp add: inheritingRequest_def textToSvgPath_def hasProperty_def
      requestKeys_exampleRequest processSingleText_def [symmetric] example_single)

text \<open>
  C9. In batch mode, when the font of a group has been loaded and the generation throws
  for some label of the group, every label of the group, also one whose result had been
  generated and stored before, has the degraded result of one and the same generation
  error of the group, and not the result generated for it.
\<close>

theorem generation_failure_degrades_group:
  assumes "\<not> (hasProperty ''text'' (Multi m) \<and> hasProperty ''fontUrl'' (Multi m))"
    and "distinct (map fst m)"
    and "textToSvgPath w (Multi m) = (out, evs)"
    and "Fetch u \<in> set evs"
    and "fst (loadFont w u) = Inr fnt"
    and "(k0, opts0) \<in> set m" and "fontUrl opts0 = u"
    and "processTextWithFont w opts0 fnt = Inl e0"
  shows "\<exists>res e. out = Inr (Many res) \<and>
     (\<exists>k1 opts1. (k1, opts1) \<in> set m \<and> fontUrl opts1 = u \<and>
        processTextWithFont w opts1 fnt = Inl e) \<and>
     (\<forall>k opts. (k, opts) \<in> set m \<and> fontUrl opts = u \<longrightarrow>
        getResult res k =
          Some \<lparr>svg = ''<svg><text>Error: '' @ message e @ ''</text></svg>'',
                svgWithBackground = None, pathData = [], pathElement = []\<rparr> \<and>
        (\<forall>r. processTextWithFont w opts fnt = Inr r \<longrightarrow> getResult res k \<noteq> Some r))"
proof -
  from assms(4) have "evs \<noteq> [] \<or> (\<exists>v. out = Inr v)" by auto
  from batch_returned [OF assms(1,3) this] obtain res where
    out: "out = Inr (Many res)" and pm: "processMulti w m = (Inr res, evs)"
    by blast
  let ?ks = "labelsWithFont u (objectEntries m)"
  have k0: "k0 \<in> set ?ks"
    using assms(6,7) by (auto simp: set_group_labels)
  have g0: "generateFor w m fnt k0 = Inl e0"
    using generateFor_entry [OF assms(2,6)] assms(8) by simp
  from processFontGroup_generation_fails [OF assms(5) k0 g0, of emptyResultObject]
  obtain e k1 where k1: "k1 \<in> set ?ks" "generateFor w m fnt k1 = Inl e" and
    all: "\<forall>k\<in>set ?ks. getResult (fst (processFontGroup w m u ?ks emptyResultObject)) k =
            Some (errorResult e)"
    by blast
  from k1(1) obtain opts1 where o1: "(k1, opts1) \<in> set m" "fontUrl opts1 = u"
    by (auto simp: set_group_labels)
  with k1(2) generateFor_entry [OF assms(2) o1(1)]
  have 1: "\<exists>k1 opts1. (k1, opts1) \<in> set m \<and> fontUrl opts1 = u \<and>
        processTextWithFont w opts1 fnt = Inl e"
    by auto
  have 2: "getResult res k = Some (errorResult e)"
    if "(k, opts) \<in> set m" and "fontUrl opts = u" for k opts
  proof -
    from that have "k \<in> set ?ks" by (auto simp: set_group_labels)
    with all processMulti_get [OF assms(2) pm that(1)] that(2) show ?thesis by simp
  qed
  have 3: "getResult res k \<noteq> Some r"
    if "(k, opts) \<in> set m" and "fontUrl opts = u" and "processTextWithFont w opts fnt = Inr r"
    for k opts r
    using 2 [OF that(1,2)] generated_not_degraded [OF that(3), of e] by simp
  from out 1 2 3 show ?thesis
    unfolding errorResult_def by blast
qed

theorem generation_failure_degrades_group_witness:
  "\<exists>res. fst (textToSvgPath exampleWorld (Multi throwingBatch)) = Inr (Many res) \<and>
     processTextWithFont exampleWorld (exampleRequest ''Hi'' ''https://fonts.example/a.ttf'')
       exampleFont = Inr exampleResult \<and>
     getResult res ''title'' =
       Some \<lparr>svg = ''<svg><text>Error: glyph failure</text></svg>'',
             svgWithBackground = None, pathData = [], pathElement = []\<rparr> \<and>
     getResult res ''logo'' =
       Some \<lparr>svg = ''<svg><text>Error: glyph failure</text></svg>'',
             svgWithBackground = None, pathData = [], pathElement = []\<rparr>"
proof -
  let ?a = "''https://fonts.example/a.ttf''"
  have f: "Fetch ?a \<in> set [Fetch ?a, Parse ?a]"
    by simp
  have l: "fst (loadFont exampleWorld ?a) = Inr exampleFont"
    by (simp add: example_loadFont)
  have k: "(''logo'', exampleRequest ''boom'' ?a) \<in> set throwingBatch"
    by (simp add: throwingBatch_def)
  have t: "processTextWithFont exampleWorld (exampleRequest ''boom'' ?a) exampleFont =
             Inl (Error ''glyph failure'')"
    by (simp add: example_generate)
  from generation_failure_degrades_group [OF batch_mode_examples(2) example_batches_distinct(2)
      throwingBatch_run f l k fontUrl_exampleRequest t]
  obtain res e where
    r: "Inr (Many (ResultObject
        [(''title'', errorResult (Error ''glyph failure'')),
         (''logo'', errorResult (Error ''glyph failure''))] None)) = Inr (Many res)" and
    c: "\<exists>k1 opts1. (k1, opts1) \<in> set throwingBatch \<and> fontUrl opts1 = ?a \<and>
          processTextWithFont exampleWorld opts1 exampleFont = Inl e" and
    d: "\<And>k opts. (k, opts) \<in> set throwingBatch \<Longrightarrow> fontUrl opts = ?a \<Longrightarrow>
        getResult res k =
          Some \<lparr>svg = ''<svg><text>Error: '' @ message e @ ''</text></svg>'',
                svgWithBackground = None, pathData = [], pathElement = []\<rparr>"
    by blast
  from c have e: "e = Error ''glyph failure''"
    by (auto simp: throwingBatch_def example_generate split: if_splits)
  have 1: "getResult res ''title'' =
       Some \<lparr>svg = ''<svg><text>Error: glyph failure</text></svg>'',
             svgWithBackground = None, pathData = [], pathElement = []\<rparr>"
    using d [of "''title''" "exampleRequest ''Hi'' ?a"] e
    by (simp add: throwingBatch_def fontUrl_exampleRequest)
  have 2: "getResult res ''logo'' =
       Some \<lparr>svg = ''<svg><text>Error: glyph failure</text></svg>'',
             svgWithBackground = None, pathData = [], pathElement = []\<rparr>"
    using d [of "''logo''" "exampleRequest ''boom'' ?a"] e
    by (simp add: throwingBatch_def fontUrl_exampleRequest)
  from r 1 2 show ?thesis
    by (simp add: throwingBatch_run example_generate)
qed

text \<open>
  C10. The empty object has neither \<^verbatim>\<open>text\<close> nor \<^verbatim>\<open>fontUrl\<close>; for it \<open>textToSvgPath\<close>
  returns the empty mapping and neither fetches nor parses a font.
\<close>

theorem empty_mapping:
  "\<not> hasProperty ''text'' (Multi []) \<and> \<not> hasProperty ''fontUrl'' (Multi []) \<and>
   textToSvgPath w (Multi []) = (Inr (Many emptyResultObject), []) \<and>
   resultKeys emptyResultObject = []"
  by (simp add: batch_defs resultKeys_def)

theorem empty_mapping_witness:
  "textToSvgPath exampleWorld (Multi []) = (Inr (Many (ResultObject [] None)), [])"
  using empty_mapping [of exampleWorld] by (simp add: emptyResultObject_def)


end
